theory Spec2Isabelle
  imports Complex_Main "HOL-Library.Sublist"
begin

section \<open>Python values shared by the services\<close>

text \<open>
  The exceptions the modelled code can raise. Every function of the source that can
  raise returns \<open>exn + 'a\<close>, with \<open>Inl\<close> for the exception.
\<close>

datatype exn =
    ValueError | KeyError | TypeError | AttributeError | OverflowError
  | ValidationError | JSONDecodeError | RuntimeError | WebSocketDisconnect
  | LinAlgError | APIError

text \<open>
  A sensor value is a Python float, modelled by the rational number it is. Where the
  services compare, clamp, print or simulate such values the arithmetic on them is
  exact, binary rounding error being outside the model there; the forecast, which
  adds, multiplies and rounds, computes in doubles (section on the floats of the
  forecast). A naive \<open>datetime\<close> is its number of microseconds since
  0001-01-01T00:00:00 (\<open>datetime.min\<close>); \<open>isoformat\<close> and \<open>fromisoformat\<close> are inverse
  to each other on such values, so a stored ISO string is modelled by the datetime it
  encodes.
\<close>

type_synonym datetime = int

definition datetime_max_us :: int where
  "datetime_max_us = 3652059 * 86400000000"

text \<open>\<open>timedelta(hours=h)\<close>: a duration in microseconds; more than 999999999 days
  in either direction is an OverflowError.\<close>

definition timedelta_hours :: "int \<Rightarrow> exn + int" where
  "timedelta_hours h =
     (let us = h * 3600000000 in
      if us div 86400000000 < - 999999999 \<or> 999999999 < us div 86400000000
      then Inl OverflowError else Inr us)"

text \<open>\<open>dt - delta\<close>: a result outside year 1 .. year 9999 is an OverflowError.\<close>

definition datetime_sub :: "datetime \<Rightarrow> int \<Rightarrow> exn + datetime" where
  "datetime_sub dt delta =
     (if dt - delta < 0 \<or> datetime_max_us \<le> dt - delta then Inl OverflowError
      else Inr (dt - delta))"

text \<open>\<open>xs[i:]\<close> for a Python list and an integer \<open>i\<close>; a negative \<open>i\<close> counts
  from the end, and \<open>xs[-0:]\<close> is the whole list.\<close>

definition py_slice_from :: "int \<Rightarrow> 'a list \<Rightarrow> 'a list" where
  "py_slice_from i xs =
     (if i < 0 then drop (nat (max 0 (int (length xs) + i))) xs else drop (nat i) xs)"

section \<open>Telemetry schema (schemas/plant\_schemas.py)\<close>

record TelemetryData =
  temperature :: rat
  humidity :: rat
  soil_moisture :: rat
  co2_level :: int
  light_level :: "rat option"
  ph_level :: "rat option"
  nutrient_level :: "rat option"

text \<open>The field constraints (\<open>ge\<close>, \<open>le\<close>) that pydantic checks at construction.\<close>

definition telemetry_valid :: "TelemetryData \<Rightarrow> bool" where
  "telemetry_valid t =
     (- 50 \<le> temperature t \<and> temperature t \<le> 100 \<and>
      0 \<le> humidity t \<and> humidity t \<le> 100 \<and>
      0 \<le> soil_moisture t \<and> soil_moisture t \<le> 1 \<and>
      0 \<le> co2_level t \<and> co2_level t \<le> 5000 \<and>
      (case light_level t of None \<Rightarrow> True | Some l \<Rightarrow> 0 \<le> l) \<and>
      (case ph_level t of None \<Rightarrow> True | Some p \<Rightarrow> 0 \<le> p \<and> p \<le> 14) \<and>
      (case nutrient_level t of None \<Rightarrow> True | Some n \<Rightarrow> 0 \<le> n))"

definition mk_TelemetryData ::
  "rat \<Rightarrow> rat \<Rightarrow> rat \<Rightarrow> int \<Rightarrow> rat option \<Rightarrow> rat option \<Rightarrow> rat option \<Rightarrow> exn + TelemetryData" where
  "mk_TelemetryData te hu so co li ph nu =
     (let t = \<lparr>temperature = te, humidity = hu, soil_moisture = so, co2_level = co,
                light_level = li, ph_level = ph, nutrient_level = nu\<rparr>
      in if telemetry_valid t then Inr t else Inl ValidationError)"

section \<open>Sensor service: the reading history (services/sensor\_service.py)\<close>

text \<open>An entry of \<open>reading_history\<close>: the telemetry fields and the \<open>timestamp\<close> key.\<close>

record reading =
  telemetry :: TelemetryData
  timestamp :: datetime

record SensorService =
  is_connected :: bool
  latest_reading :: "TelemetryData option"
  reading_history :: "reading list"
  max_history :: int

definition SensorService_init :: SensorService where
  "SensorService_init =
     \<lparr>is_connected = False, latest_reading = None, reading_history = [], max_history = 1000\<rparr>"

text \<open>\<open>_add_to_history\<close>; \<open>now\<close> is what \<open>datetime.now()\<close> returns in the call.\<close>

definition add_to_history :: "SensorService \<Rightarrow> TelemetryData \<Rightarrow> datetime \<Rightarrow> SensorService" where
  "add_to_history s t now =
     (let r = \<lparr>telemetry = t, timestamp = now\<rparr>;
          h = reading_history s @ [r]
      in if int (length h) > max_history s
         then s\<lparr>reading_history := py_slice_from (- max_history s) h\<rparr>
         else s\<lparr>reading_history := h\<rparr>)"

text \<open>A run of appends, each with its own clock reading, in arrival order.\<close>

definition add_all :: "SensorService \<Rightarrow> (TelemetryData \<times> datetime) list \<Rightarrow> SensorService" where
  "add_all s xs = foldl (\<lambda>s' (t, now). add_to_history s' t now) s xs"

definition reading_of :: "TelemetryData \<times> datetime \<Rightarrow> reading" where
  "reading_of p = \<lparr>telemetry = fst p, timestamp = snd p\<rparr>"

text \<open>The loop of \<open>get_history\<close> over \<open>reading_history\<close>, with its accumulator
  \<open>filtered_history\<close>.\<close>

fun history_loop :: "datetime \<Rightarrow> reading list \<Rightarrow> reading list \<Rightarrow> reading list" where
  "history_loop cutoff_time [] filtered_history = filtered_history"
| "history_loop cutoff_time (r # rs) filtered_history =
     history_loop cutoff_time rs
       (if timestamp r \<ge> cutoff_time then filtered_history @ [r] else filtered_history)"

definition get_history :: "SensorService \<Rightarrow> datetime \<Rightarrow> int \<Rightarrow> exn + reading list" where
  "get_history s now hours =
     (case timedelta_hours hours of
        Inl e \<Rightarrow> Inl e
      | Inr delta \<Rightarrow>
          (case datetime_sub now delta of
             Inl e \<Rightarrow> Inl e
           | Inr cutoff_time \<Rightarrow> Inr (history_loop cutoff_time (reading_history s) [])))"

section \<open>WebSocket manager (core/websocket\_manager.py)\<close>

text \<open>A Python value as the services put it into a message: what \<open>json.loads\<close>
  returns (a dict is a list of key-value pairs, read with \<open>map_of\<close>), and besides
  a \<open>datetime\<close> object, which a pydantic \<open>.dict()\<close> holds and \<open>json.dumps\<close> does not
  take.\<close>

datatype json =
    JNull | JBool bool | JInt int | JFloat rat | JStr string
  | JList "json list" | JObj "(string \<times> json) list" | PyDatetime int

text \<open>The values \<open>json.dumps\<close> serialises; on the others it raises TypeError.\<close>

primrec serialisable :: "json \<Rightarrow> bool" where
  "serialisable JNull = True"
| "serialisable (JBool b) = True"
| "serialisable (JInt i) = True"
| "serialisable (JFloat q) = True"
| "serialisable (JStr s) = True"
| "serialisable (JList l) = list_all id (map serialisable l)"
| "serialisable (JObj kv) = list_all snd (map (map_prod id serialisable) kv)"
| "serialisable (PyDatetime t) = False"

text \<open>A \<open>WebSocket\<close> object is known by its identity.\<close>

type_synonym websocket = nat

text \<open>The per-connection dict: \<open>connected_at\<close>, and \<open>subscriptions\<close> once a
  subscription was made.\<close>

record conn_data =
  connected_at :: rat
  subscriptions :: "json list option"

record WebSocketManager =
  active_connections :: "websocket list"
  connection_data :: "websocket \<rightharpoonup> conn_data"

definition WebSocketManager_init :: WebSocketManager where
  "WebSocketManager_init = \<lparr>active_connections = [], connection_data = Map.empty\<rparr>"

text \<open>
  What the manager calls outside itself: the socket's \<open>accept\<close> and \<open>send_text\<close>,
  which raise when the channel is closed or the write fails, \<open>json.dumps\<close> (TypeError
  on a value that is not serialisable), \<open>json.loads\<close> (JSONDecodeError on malformed
  text) and \<open>str\<close> as the f-string of the error reply applies it.
\<close>

record ws_env =
  ws_accept :: "websocket \<Rightarrow> exn + unit"
  ws_send_text :: "websocket \<Rightarrow> string \<Rightarrow> exn + unit"
  json_dumps :: "json \<Rightarrow> exn + string"
  json_loads :: "string \<Rightarrow> exn + json"
  py_str :: "json \<Rightarrow> string"

text \<open>\<open>list.remove(x)\<close> and \<open>del d[k]\<close> raise when the element or key is absent.\<close>

definition list_remove :: "'a \<Rightarrow> 'a list \<Rightarrow> exn + 'a list" where
  "list_remove x xs = (if x \<in> set xs then Inr (remove1 x xs) else Inl ValueError)"

definition dict_del :: "'k \<Rightarrow> ('k \<rightharpoonup> 'v) \<Rightarrow> exn + ('k \<rightharpoonup> 'v)" where
  "dict_del k d = (if k \<in> dom d then Inr (d(k := None)) else Inl KeyError)"

text \<open>\<open>d.get(k)\<close> on a parsed dict: a missing key reads as \<open>None\<close>, as JSON null does.\<close>

definition py_get :: "(string \<times> json) list \<Rightarrow> string \<Rightarrow> json" where
  "py_get kv k = (case map_of kv k of None \<Rightarrow> JNull | Some v \<Rightarrow> v)"

definition disconnect :: "WebSocketManager \<Rightarrow> websocket \<Rightarrow> exn + WebSocketManager" where
  "disconnect s w =
     (if w \<in> set (active_connections s) then
        (case list_remove w (active_connections s) of
           Inl e \<Rightarrow> Inl e
         | Inr ac \<Rightarrow>
             (if w \<in> dom (connection_data s) then
                (case dict_del w (connection_data s) of
                   Inl e \<Rightarrow> Inl e
                 | Inr cd \<Rightarrow> Inr \<lparr>active_connections = ac, connection_data = cd\<rparr>)
              else Inr (s\<lparr>active_connections := ac\<rparr>)))
      else Inr s)"

text \<open>The body of the \<open>try\<close> of both send paths: \<open>send_text(json.dumps(message))\<close>.\<close>

definition try_send :: "ws_env \<Rightarrow> websocket \<Rightarrow> json \<Rightarrow> exn + unit" where
  "try_send env w message =
     (case json_dumps env message of
        Inl e \<Rightarrow> Inl e
      | Inr payload \<Rightarrow> ws_send_text env w payload)"

definition delivery_fails :: "ws_env \<Rightarrow> json \<Rightarrow> websocket \<Rightarrow> bool" where
  "delivery_fails env message w = isl (try_send env w message)"

text \<open>
  \<open>send_personal_message\<close>. The result is the manager's new state and the messages
  the socket took (the subscriber and the message, before serialisation).
\<close>

definition send_personal_message ::
  "ws_env \<Rightarrow> WebSocketManager \<Rightarrow> json \<Rightarrow> websocket \<Rightarrow> exn + WebSocketManager \<times> (websocket \<times> json) list" where
  "send_personal_message env s message w =
     (case try_send env w message of
        Inr _ \<Rightarrow> Inr (s, [(w, message)])
      | Inl _ \<Rightarrow>
          (case disconnect s w of
             Inl e \<Rightarrow> Inl e
           | Inr s' \<Rightarrow> Inr (s', [])))"

text \<open>\<open>connect\<close>; \<open>t_connected\<close> and \<open>t_sent\<close> are the two readings of the event
  loop's clock.\<close>

definition connect ::
  "ws_env \<Rightarrow> WebSocketManager \<Rightarrow> websocket \<Rightarrow> rat \<Rightarrow> rat \<Rightarrow> exn + WebSocketManager \<times> (websocket \<times> json) list" where
  "connect env s w t_connected t_sent =
     (case ws_accept env w of
        Inl e \<Rightarrow> Inl e
      | Inr _ \<Rightarrow>
          send_personal_message env
            \<lparr>active_connections = active_connections s @ [w],
             connection_data =
               (connection_data s)(w \<mapsto> \<lparr>connected_at = t_connected, subscriptions = None\<rparr>)\<rparr>
            (JObj [(''type'', JStr ''connection''),
                   (''message'', JStr ''Connected to Green Genesis Python Backend''),
                   (''timestamp'', JFloat t_sent)])
            w)"

text \<open>The first loop of \<open>broadcast\<close>, collecting \<open>disconnected\<close>, and the second,
  which disconnects each collected connection.\<close>

fun broadcast_loop :: "ws_env \<Rightarrow> json \<Rightarrow> websocket list \<Rightarrow> websocket list \<Rightarrow> websocket list" where
  "broadcast_loop env message [] disconnected = disconnected"
| "broadcast_loop env message (c # cs) disconnected =
     broadcast_loop env message cs
       (case try_send env c message of
          Inl _ \<Rightarrow> disconnected @ [c]
        | Inr _ \<Rightarrow> disconnected)"

fun disconnect_all :: "WebSocketManager \<Rightarrow> websocket list \<Rightarrow> exn + WebSocketManager" where
  "disconnect_all s [] = Inr s"
| "disconnect_all s (c # cs) =
     (case disconnect s c of
        Inl e \<Rightarrow> Inl e
      | Inr s' \<Rightarrow> disconnect_all s' cs)"

definition broadcast :: "ws_env \<Rightarrow> WebSocketManager \<Rightarrow> json \<Rightarrow> exn + WebSocketManager" where
  "broadcast env s message =
     disconnect_all s (broadcast_loop env message (active_connections s) [])"

definition handle_subscription ::
  "ws_env \<Rightarrow> WebSocketManager \<Rightarrow> websocket \<Rightarrow> json \<Rightarrow> exn + WebSocketManager \<times> (websocket \<times> json) list" where
  "handle_subscription env s w message =
     (case message of
        JObj kv \<Rightarrow>
          (let subscription_type = py_get kv ''subscription'' in
           if subscription_type \<in> set [JStr ''telemetry'', JStr ''alerts'', JStr ''analysis''] then
             (case connection_data s w of
                None \<Rightarrow> Inl KeyError
              | Some cd \<Rightarrow>
                  (let subs = (case subscriptions cd of None \<Rightarrow> [] | Some l \<Rightarrow> l);
                       subs' = (if subscription_type \<notin> set subs then subs @ [subscription_type]
                                else subs)
                   in send_personal_message env
                        (s\<lparr>connection_data :=
                             (connection_data s)(w \<mapsto> cd\<lparr>subscriptions := Some subs'\<rparr>)\<rparr>)
                        (JObj [(''type'', JStr ''subscription_confirmed''),
                               (''subscription'', subscription_type)])
                        w))
           else Inr (s, []))
      | _ \<Rightarrow> Inl AttributeError)"

definition handle_message ::
  "ws_env \<Rightarrow> WebSocketManager \<Rightarrow> websocket \<Rightarrow> string \<Rightarrow> exn + WebSocketManager \<times> (websocket \<times> json) list" where
  "handle_message env s w data =
     (case json_loads env data of
        Inl e \<Rightarrow>
          (if e = JSONDecodeError then
             send_personal_message env s
               (JObj [(''type'', JStr ''error''), (''message'', JStr ''Invalid JSON format'')]) w
           else Inl e)
      | Inr message \<Rightarrow>
          (case message of
             JObj kv \<Rightarrow>
               (let message_type = py_get kv ''type'' in
                if message_type = JStr ''ping'' then
                  send_personal_message env s (JObj [(''type'', JStr ''pong'')]) w
                else if message_type = JStr ''subscribe'' then
                  handle_subscription env s w message
                else
                  send_personal_message env s
                    (JObj [(''type'', JStr ''error''),
                           (''message'', JStr (''Unknown message type: '' @ py_str env message_type))])
                    w)
           | _ \<Rightarrow> Inl AttributeError))"

definition get_connection_count :: "WebSocketManager \<Rightarrow> nat" where
  "get_connection_count s = length (active_connections s)"

text \<open>The messages a call handed to its subscriber; none when the call raised.\<close>

definition sent_by :: "exn + WebSocketManager \<times> (websocket \<times> json) list \<Rightarrow> json list" where
  "sent_by r = (case r of Inl _ \<Rightarrow> [] | Inr (_, out) \<Rightarrow> map snd out)"

subsection \<open>The wire envelope\<close>

definition is_digit :: "char \<Rightarrow> bool" where
  "is_digit c = (c \<in> set ''0123456789'')"

text \<open>The shape of \<open>datetime.isoformat()\<close>: \<open>YYYY-MM-DDTHH:MM:SS\<close>, then an optional
  fraction.\<close>

definition iso8601 :: "string \<Rightarrow> bool" where
  "iso8601 t =
     (19 \<le> length t \<and>
      list_all is_digit (take 4 t) \<and> t ! 4 = CHR ''-'' \<and>
      list_all is_digit (take 2 (drop 5 t)) \<and> t ! 7 = CHR ''-'' \<and>
      list_all is_digit (take 2 (drop 8 t)) \<and> t ! 10 = CHR ''T'' \<and>
      list_all is_digit (take 2 (drop 11 t)) \<and> t ! 13 = CHR '':'' \<and>
      list_all is_digit (take 2 (drop 14 t)) \<and> t ! 16 = CHR '':'' \<and>
      list_all is_digit (take 2 (drop 17 t)))"

text \<open>The envelope \<open>{type: string, data: object, timestamp: ISO-8601 string}\<close>.\<close>

definition has_envelope :: "json \<Rightarrow> bool" where
  "has_envelope m =
     (case m of
        JObj kv \<Rightarrow>
          (case map_of kv ''type'' of Some (JStr _) \<Rightarrow> True | _ \<Rightarrow> False) \<and>
          (case map_of kv ''data'' of Some (JObj _) \<Rightarrow> True | _ \<Rightarrow> False) \<and>
          (case map_of kv ''timestamp'' of Some (JStr t) \<Rightarrow> iso8601 t | _ \<Rightarrow> False)
      | _ \<Rightarrow> False)"

text \<open>The manager's own messages. The handshake carries \<open>type\<close>, \<open>message\<close> and as
  \<open>timestamp\<close> the reading \<open>t_sent\<close> of the event loop's clock, a number.\<close>

definition handshake_message :: "rat \<Rightarrow> json" where
  "handshake_message t_sent =
     JObj [(''type'', JStr ''connection''),
           (''message'', JStr ''Connected to Green Genesis Python Backend''),
           (''timestamp'', JFloat t_sent)]"

text \<open>A reply is a pong, which carries \<open>type\<close> only, an error reply, which carries
  \<open>type\<close> and a string \<open>message\<close>, or a subscription confirmation, which carries
  \<open>type\<close> and the \<open>subscription\<close> it confirms.\<close>

definition is_hub_reply :: "json \<Rightarrow> bool" where
  "is_hub_reply m =
     (case m of
        JObj kv \<Rightarrow>
          kv = [(''type'', JStr ''pong'')] \<or>
          (length kv = 2 \<and> map fst kv = [''type'', ''message''] \<and>
           snd (kv ! 0) = JStr ''error'' \<and>
           (case snd (kv ! 1) of JStr text \<Rightarrow> True | _ \<Rightarrow> False)) \<or>
          (length kv = 2 \<and> map fst kv = [''type'', ''subscription''] \<and>
           snd (kv ! 0) = JStr ''subscription_confirmed'' \<and>
           snd (kv ! 1) \<in> set [JStr ''telemetry'', JStr ''alerts'', JStr ''analysis''])
      | _ \<Rightarrow> False)"

text \<open>The text \<open>{"type": "ping"}\<close> a subscriber sends; \<open>CHR 0x22\<close> is the double
  quote.\<close>

definition ping_text :: string where
  "ping_text =
     ''{'' @ [CHR 0x22] @ ''type'' @ [CHR 0x22] @ '': '' @ [CHR 0x22] @ ''ping'' @ [CHR 0x22] @ ''}''"

text \<open>
  An environment in which every socket accepts and takes what it is sent.
  \<open>json.dumps\<close> raises TypeError on the values it does not serialise, and the text
  it returns otherwise is not looked at. Of \<open>json.loads\<close> this environment has what
  is used with it: the ping text parses to its dict, and a text that is not JSON,
  such as the bare word \<open>ping\<close>, is a JSONDecodeError.
\<close>

definition env_open :: ws_env where
  "env_open =
     \<lparr>ws_accept = (\<lambda>w. Inr ()), ws_send_text = (\<lambda>w payload. Inr ()),
      json_dumps = (\<lambda>m. if serialisable m then Inr ''{}'' else Inl TypeError),
      json_loads = (\<lambda>d. if d = ping_text then Inr (JObj [(''type'', JStr ''ping'')])
                         else Inl JSONDecodeError),
      py_str = (\<lambda>v. ''None'')\<rparr>"

text \<open>Three registered subscribers, each with its metadata.\<close>

definition three_clients :: WebSocketManager where
  "three_clients =
     \<lparr>active_connections = [1, 2, 3],
      connection_data =
        [1 \<mapsto> \<lparr>connected_at = 10, subscriptions = None\<rparr>,
         2 \<mapsto> \<lparr>connected_at = 11, subscriptions = None\<rparr>,
         3 \<mapsto> \<lparr>connected_at = 12, subscriptions = None\<rparr>]\<rparr>"

section \<open>Numbers as Python prints and rounds them\<close>

text \<open>\<open>round(x)\<close> to the nearest integer, a tie going to the even one.\<close>

definition round_half_even :: "rat \<Rightarrow> int" where
  "round_half_even y =
     (let f = \<lfloor>y\<rfloor>; d = y - of_int f
      in if d < 1 / 2 then f else if 1 / 2 < d then f + 1 else if even f then f else f + 1)"

text \<open>\<open>round(x, ndigits)\<close> of a float.\<close>

definition py_round :: "nat \<Rightarrow> rat \<Rightarrow> rat" where
  "py_round ndigits x = of_int (round_half_even (x * 10 ^ ndigits)) / 10 ^ ndigits"

definition digit_char :: "nat \<Rightarrow> char" where
  "digit_char d = ''0123456789'' ! d"

function str_nat :: "nat \<Rightarrow> string" where
  "str_nat n = (if n < 10 then [digit_char n] else str_nat (n div 10) @ [digit_char (n mod 10)])"
  by pat_completeness auto
termination
  by (relation "measure id") auto

declare str_nat.simps [simp del]

definition str_int :: "int \<Rightarrow> string" where
  "str_int i = (if i < 0 then CHR ''-'' # str_nat (nat (- i)) else str_nat (nat i))"

text \<open>The digits of a fraction \<open>0 \<le> r < 1\<close>, at most \<open>k\<close> of them.\<close>

fun frac_digits :: "nat \<Rightarrow> rat \<Rightarrow> string" where
  "frac_digits 0 r = []"
| "frac_digits (Suc k) r =
     (if r = 0 then []
      else digit_char (nat \<lfloor>r * 10\<rfloor>) # frac_digits k (r * 10 - of_int \<lfloor>r * 10\<rfloor>))"

text \<open>
  \<open>str\<close> of a float, as an f-string applies it. Python prints the shortest decimal
  that reads back as the same float: for a float that stands for a decimal number of
  up to 15 significant digits between \<open>1e-4\<close> and \<open>1e16\<close> (every sensor value is
  one) that is the decimal itself, with \<open>.0\<close> after a whole number. The model prints
  the decimal expansion, cut after 17 fractional digits.
\<close>

definition str_float :: "rat \<Rightarrow> string" where
  "str_float q =
     (let a = \<bar>q\<bar>; ip = \<lfloor>a\<rfloor>; fr = a - of_int ip
      in (if q < 0 then ''-'' else '''') @ str_nat (nat ip) @ ''.'' @
         (if fr = 0 then ''0'' else frac_digits 17 fr))"

text \<open>The format \<open>:.2f\<close>.\<close>

definition fmt_2f :: "rat \<Rightarrow> string" where
  "fmt_2f q =
     (let n = nat (round_half_even (\<bar>q\<bar> * 100))
      in (if q < 0 then ''-'' else '''') @ str_nat (n div 100) @ ''.'' @
         [digit_char (n mod 100 div 10), digit_char (n mod 10)])"

section \<open>Sensor service: records of the device and of the simulator\<close>

text \<open>\<open>float(s)\<close> and \<open>int(s)\<close> of a string parse it; the parsers are the
  environment's.\<close>

record py_env =
  float_of_str :: "string \<Rightarrow> exn + rat"
  int_of_str :: "string \<Rightarrow> exn + int"

definition py_float :: "py_env \<Rightarrow> json \<Rightarrow> exn + rat" where
  "py_float env v =
     (case v of
        JInt i \<Rightarrow> Inr (of_int i)
      | JFloat q \<Rightarrow> Inr q
      | JBool b \<Rightarrow> Inr (if b then 1 else 0)
      | JStr s \<Rightarrow> float_of_str env s
      | _ \<Rightarrow> Inl TypeError)"

text \<open>\<open>int(v)\<close>: a float is cut towards zero.\<close>

definition py_int :: "py_env \<Rightarrow> json \<Rightarrow> exn + int" where
  "py_int env v =
     (case v of
        JInt i \<Rightarrow> Inr i
      | JFloat q \<Rightarrow> Inr (if q < 0 then - \<lfloor>- q\<rfloor> else \<lfloor>q\<rfloor>)
      | JBool b \<Rightarrow> Inr (if b then 1 else 0)
      | JStr s \<Rightarrow> int_of_str env s
      | _ \<Rightarrow> Inl TypeError)"

text \<open>The truth value of a Python value in a condition.\<close>

definition py_truthy :: "json \<Rightarrow> bool" where
  "py_truthy v =
     (case v of
        JNull \<Rightarrow> False
      | JBool b \<Rightarrow> b
      | JInt i \<Rightarrow> i \<noteq> 0
      | JFloat q \<Rightarrow> q \<noteq> 0
      | JStr s \<Rightarrow> s \<noteq> []
      | JList l \<Rightarrow> l \<noteq> []
      | JObj kv \<Rightarrow> kv \<noteq> []
      | PyDatetime t \<Rightarrow> True)"

text \<open>\<open>d.get(k, default)\<close>.\<close>

definition py_get_default :: "(string \<times> json) list \<Rightarrow> string \<Rightarrow> json \<Rightarrow> json" where
  "py_get_default kv k dflt = (case map_of kv k of None \<Rightarrow> dflt | Some v \<Rightarrow> v)"

text \<open>An optional field of the record: \<open>float(v) if c else None\<close>.\<close>

definition optional_float :: "py_env \<Rightarrow> json \<Rightarrow> json \<Rightarrow> exn + rat option" where
  "optional_float env c v =
     (if py_truthy c then (case py_float env v of Inl e \<Rightarrow> Inl e | Inr q \<Rightarrow> Inr (Some q))
      else Inr None)"

text \<open>The construction of the \<open>TelemetryData\<close> in \<open>_process_sensor_data\<close>, from the
  parsed record \<open>data\<close>. The arguments are evaluated in the order of the call.\<close>

definition telemetry_of_data :: "py_env \<Rightarrow> json \<Rightarrow> exn + TelemetryData" where
  "telemetry_of_data env data =
     (case data of
        JObj kv \<Rightarrow>
          (case py_float env (py_get_default kv ''temp'' (JInt 0)) of Inl e \<Rightarrow> Inl e | Inr te \<Rightarrow>
          (case py_float env (py_get_default kv ''humidity'' (JInt 0)) of Inl e \<Rightarrow> Inl e | Inr hu \<Rightarrow>
          (case py_float env (py_get_default kv ''soil'' (JInt 0)) of Inl e \<Rightarrow> Inl e | Inr so \<Rightarrow>
          (case py_int env (py_get_default kv ''co2'' (JInt 0)) of Inl e \<Rightarrow> Inl e | Inr co \<Rightarrow>
          (case optional_float env (py_get kv ''light'') (py_get_default kv ''light'' (JInt 0)) of
             Inl e \<Rightarrow> Inl e | Inr li \<Rightarrow>
          (case optional_float env (py_get kv ''ph'') (py_get kv ''ph'') of
             Inl e \<Rightarrow> Inl e | Inr ph \<Rightarrow>
          (case optional_float env (py_get kv ''nutrients'') (py_get kv ''nutrients'') of
             Inl e \<Rightarrow> Inl e | Inr nu \<Rightarrow>
             mk_TelemetryData te hu so co li ph nu)))))))
      | _ \<Rightarrow> Inl AttributeError)"

text \<open>The random draws of one call of \<open>_generate_simulated_data\<close>, in the order the
  code makes them.\<close>

record sim_draws =
  draw_temp :: rat
  draw_humidity :: rat
  draw_soil :: rat
  draw_co2 :: int
  draw_light :: rat
  draw_ph :: rat
  draw_nutrients :: rat

text \<open>What \<open>random.uniform(a, b)\<close> and \<open>random.randint(a, b)\<close> can return.\<close>

definition draws_in_range :: "sim_draws \<Rightarrow> bool" where
  "draws_in_range d =
     (- 3 \<le> draw_temp d \<and> draw_temp d \<le> 3 \<and>
      - 15 \<le> draw_humidity d \<and> draw_humidity d \<le> 15 \<and>
      - (2 / 10) \<le> draw_soil d \<and> draw_soil d \<le> 2 / 10 \<and>
      - 200 \<le> draw_co2 d \<and> draw_co2 d \<le> 200 \<and>
      - 100 \<le> draw_light d \<and> draw_light d \<le> 100 \<and>
      - 1 \<le> draw_ph d \<and> draw_ph d \<le> 1 \<and>
      3 / 10 \<le> draw_nutrients d \<and> draw_nutrients d \<le> 9 / 10)"

text \<open>\<open>min(a, x)\<close> and \<open>max(a, x)\<close> of an int \<open>a\<close> and a number \<open>x\<close>: the first
  argument is returned unless the second is strictly smaller (larger).\<close>

definition num_val :: "json \<Rightarrow> rat" where
  "num_val v = (case v of JInt i \<Rightarrow> of_int i | JFloat q \<Rightarrow> q | _ \<Rightarrow> 0)"

definition py_min :: "int \<Rightarrow> json \<Rightarrow> json" where
  "py_min a x = (if num_val x < of_int a then x else JInt a)"

definition py_max :: "int \<Rightarrow> json \<Rightarrow> json" where
  "py_max a x = (if of_int a < num_val x then x else JInt a)"

definition generate_simulated_data :: "sim_draws \<Rightarrow> json" where
  "generate_simulated_data d =
     (let base_temp = 23 + draw_temp d;
          base_humidity = 60 + draw_humidity d;
          base_soil = 6 / 10 + draw_soil d;
          base_co2 = 800 + draw_co2 d;
          base_light = 450 + draw_light d
      in JObj
        [(''temp'', JFloat (py_round 1 base_temp)),
         (''humidity'', py_max 0 (py_min 100 (JFloat (py_round 1 base_humidity)))),
         (''soil'', py_max 0 (py_min 1 (JFloat (py_round 2 base_soil)))),
         (''co2'', py_max 300 (py_min 1500 (JInt base_co2))),
         (''light'', py_max 0 (JFloat (py_round 1 base_light))),
         (''ph'', JFloat (py_round 1 (65 / 10 + draw_ph d))),
         (''nutrients'', JFloat (py_round 2 (draw_nutrients d)))])"

section \<open>Floats of the forecast\<close>

text \<open>
  A Python float where the forecast computes with it: a finite double, given by the
  rational it is, an infinity or a NaN. The sign of a zero is not kept.
\<close>

datatype pyfloat = Finite rat | PosInf | NegInf | NaN

definition pow2 :: "int \<Rightarrow> rat" where
  "pow2 e = (if 0 \<le> e then 2 ^ nat e else 1 / 2 ^ nat (- e))"

text \<open>The number of binary digits of a positive integer.\<close>

function bit_length :: "int \<Rightarrow> int" where
  "bit_length n = (if n \<le> 0 then 0 else 1 + bit_length (n div 2))"
  by pat_completeness auto
termination
  by (relation "measure nat") auto

declare bit_length.simps [simp del]

text \<open>The exponent \<open>k\<close> with \<open>2 ^ k \<le> q < 2 ^ (k + 1)\<close>, for a positive \<open>q\<close>.\<close>

definition ilog2 :: "rat \<Rightarrow> int" where
  "ilog2 q =
     (let (a, b) = quotient_of q;
          k = bit_length a - bit_length b
      in if pow2 k \<le> q then k else k - 1)"

text \<open>
  The double nearest to a rational, ties to the even significand (IEEE 754 binary64,
  round to nearest): 53 significant bits, no bit below \<open>2 ^ - 1074\<close>, and an
  infinity from \<open>2 ^ 1024\<close> on.
\<close>

definition round_double :: "rat \<Rightarrow> pyfloat" where
  "round_double q =
     (if q = 0 then Finite 0
      else
        (let a = \<bar>q\<bar>;
             e = max (ilog2 a - 52) (- 1074);
             v = of_int (round_half_even (a / pow2 e)) * pow2 e
         in if v \<noteq> 0 \<and> 1024 \<le> ilog2 v then (if q < 0 then NegInf else PosInf)
            else Finite (if q < 0 then - v else v)))"

text \<open>A float literal of the source: the double nearest to the decimal.\<close>

definition float_lit :: "rat \<Rightarrow> pyfloat" where
  "float_lit q = round_double q"

text \<open>\<open>x + y\<close> and \<open>x * y\<close> of two doubles.\<close>

fun float_add :: "pyfloat \<Rightarrow> pyfloat \<Rightarrow> pyfloat" where
  "float_add (Finite a) (Finite b) = round_double (a + b)"
| "float_add NaN y = NaN"
| "float_add x NaN = NaN"
| "float_add PosInf NegInf = NaN"
| "float_add NegInf PosInf = NaN"
| "float_add PosInf y = PosInf"
| "float_add NegInf y = NegInf"
| "float_add x PosInf = PosInf"
| "float_add x NegInf = NegInf"

definition float_sign :: "pyfloat \<Rightarrow> int" where
  "float_sign x =
     (case x of Finite a \<Rightarrow> (if a < 0 then - 1 else if a = 0 then 0 else 1)
      | PosInf \<Rightarrow> 1 | NegInf \<Rightarrow> - 1 | NaN \<Rightarrow> 0)"

fun float_mul :: "pyfloat \<Rightarrow> pyfloat \<Rightarrow> pyfloat" where
  "float_mul (Finite a) (Finite b) = round_double (a * b)"
| "float_mul NaN y = NaN"
| "float_mul x NaN = NaN"
| "float_mul x y =
     (if float_sign x * float_sign y = 0 then NaN
      else if 0 < float_sign x * float_sign y then PosInf else NegInf)"

text \<open>The conversion of a Python int to a float: the nearest double, or OverflowError
  when there is none.\<close>

definition float_of_int :: "int \<Rightarrow> exn + pyfloat" where
  "float_of_int i =
     (case round_double (of_int i) of Finite v \<Rightarrow> Inr (Finite v) | _ \<Rightarrow> Inl OverflowError)"

text \<open>\<open>x * n\<close> of a numpy double and a Python int: the int is converted first.\<close>

definition float_mul_int :: "pyfloat \<Rightarrow> int \<Rightarrow> exn + pyfloat" where
  "float_mul_int x n = (case float_of_int n of Inl e \<Rightarrow> Inl e | Inr y \<Rightarrow> Inr (float_mul x y))"

text \<open>\<open>round(x, ndigits)\<close> of a float: the double nearest to the decimal rounding of
  its exact value; an infinity or a NaN is returned as it is.\<close>

definition float_round :: "nat \<Rightarrow> pyfloat \<Rightarrow> pyfloat" where
  "float_round ndigits x =
     (case x of Finite a \<Rightarrow> round_double (py_round ndigits a) | _ \<Rightarrow> x)"

definition float_abs :: "pyfloat \<Rightarrow> pyfloat" where
  "float_abs x = (case x of Finite a \<Rightarrow> Finite \<bar>a\<bar> | NegInf \<Rightarrow> PosInf | _ \<Rightarrow> x)"

text \<open>\<open>x < y\<close> and \<open>x <= y\<close>; every comparison with a NaN is false.\<close>

fun float_lt :: "pyfloat \<Rightarrow> pyfloat \<Rightarrow> bool" where
  "float_lt (Finite a) (Finite b) = (a < b)"
| "float_lt NaN y = False"
| "float_lt x NaN = False"
| "float_lt PosInf y = False"
| "float_lt x PosInf = True"
| "float_lt NegInf y = (y \<noteq> NegInf)"
| "float_lt x NegInf = False"

definition float_le :: "pyfloat \<Rightarrow> pyfloat \<Rightarrow> bool" where
  "float_le x y = (x \<noteq> NaN \<and> y \<noteq> NaN \<and> (x = y \<or> float_lt x y))"

section \<open>AI service (services/ai\_service.py)\<close>

text \<open>
  The OpenAI client of the service, when a key is configured. Its answer to the
  recommendation prompt is abstracted to the list of lines that
  \<open>_get_ai_recommendations\<close> reads out of it, or the exception of the call.
\<close>

type_synonym openai_client = "TelemetryData \<Rightarrow> rat \<Rightarrow> exn + string list"

definition get_ai_recommendations ::
  "openai_client option \<Rightarrow> TelemetryData \<Rightarrow> rat \<Rightarrow> exn + string list" where
  "get_ai_recommendations client t health_score =
     (case client of
        None \<Rightarrow> Inr []
      | Some ask \<Rightarrow> (case ask t health_score of Inl _ \<Rightarrow> Inr [] | Inr ls \<Rightarrow> Inr ls))"

text \<open>\<open>x and x < bound\<close> for an optional float: false for \<open>None\<close> and for zero.\<close>

definition light_below :: "rat option \<Rightarrow> rat \<Rightarrow> bool" where
  "light_below l bound = (case l of None \<Rightarrow> False | Some x \<Rightarrow> x \<noteq> 0 \<and> x < bound)"

definition generate_recommendations ::
  "openai_client option \<Rightarrow> TelemetryData \<Rightarrow> rat \<Rightarrow> string list \<Rightarrow> string list" where
  "generate_recommendations client t health_score stress_indicators =
     (let r0 = [];
          r1 = (if temperature t < 18 then r0 @ [''Increase temperature - consider heating'']
                else if temperature t > 28 then r0 @ [''Reduce temperature - improve ventilation'']
                else r0);
          r2 = (if humidity t < 40 then r1 @ [''Increase humidity - use humidifier'']
                else if humidity t > 75 then r1 @ [''Reduce humidity - improve air circulation'']
                else r1);
          r3 = (if soil_moisture t < 3 / 10 then r2 @ [''Water the plant - soil is too dry'']
                else if soil_moisture t > 8 / 10 then r2 @ [''Reduce watering - risk of overwatering'']
                else r2);
          r4 = (if light_below (light_level t) 300
                then r3 @ [''Increase light exposure - add grow lights''] else r3);
          r5 = (if health_score < 50
                then r4 @ [''Plant health is poor - review all environmental conditions'']
                else if health_score < 70
                then r4 @ [''Monitor plant closely - some improvements needed'']
                else r4);
          r6 = (if client \<noteq> None \<and> length r5 < 3
                then (case get_ai_recommendations client t health_score of
                        Inl _ \<Rightarrow> r5
                      | Inr ai_recommendations \<Rightarrow> r5 @ ai_recommendations)
                else r5)
      in take 5 r6)"

record PredictionResponse =
  prediction_type :: string
  forecast_hours :: int
  predicted_values :: "(string \<times> pyfloat) list"
  confidence :: pyfloat
  recommendations :: "string list"
  risk_factors :: "string list"

text \<open>The schema checks \<open>0 \<le> confidence \<le> 1\<close> at construction.\<close>

definition mk_PredictionResponse ::
  "string \<Rightarrow> int \<Rightarrow> (string \<times> pyfloat) list \<Rightarrow> pyfloat \<Rightarrow> string list \<Rightarrow> string list
     \<Rightarrow> exn + PredictionResponse" where
  "mk_PredictionResponse ty hours pv conf recs risks =
     (if float_le (Finite 0) conf \<and> float_le conf (Finite 1)
      then Inr \<lparr>prediction_type = ty, forecast_hours = hours, predicted_values = pv,
                confidence = conf, recommendations = recs, risk_factors = risks\<rparr>
      else Inl ValidationError)"

text \<open>\<open>d.light_level or 500\<close>.\<close>

definition light_or_500 :: "TelemetryData \<Rightarrow> rat" where
  "light_or_500 d = (case light_level d of None \<Rightarrow> 500 | Some l \<Rightarrow> if l = 0 then 500 else l)"

text \<open>The data frame: its columns, in order, each with its values. The readings are
  doubles, and the CO2 integers are small enough to be doubles exactly.\<close>

definition data_frame :: "TelemetryData list \<Rightarrow> (string \<times> pyfloat list) list" where
  "data_frame historical_data =
     [(''temperature'', map (\<lambda>d. Finite (temperature d)) historical_data),
      (''humidity'', map (\<lambda>d. Finite (humidity d)) historical_data),
      (''soil_moisture'', map (\<lambda>d. Finite (soil_moisture d)) historical_data),
      (''co2_level'', map (\<lambda>d. Finite (of_int (co2_level d))) historical_data),
      (''light_level'', map (\<lambda>d. Finite (light_or_500 d)) historical_data)]"

text \<open>
  numpy, which is not part of the repository: \<open>np_polyfit_slope vals\<close> is
  \<open>np.polyfit(np.arange(len(vals)), vals, 1)[0]\<close>, the slope numpy fits, in floating
  point, to the points \<open>(i, vals[i])\<close>, or the exception it raises (LinAlgError when
  its solver does not converge).
\<close>

record np_env =
  np_polyfit_slope :: "pyfloat list \<Rightarrow> exn + pyfloat"

text \<open>The loop over the columns; it fills \<open>predictions\<close> and \<open>trends\<close>, and an
  exception of the body ends it.\<close>

fun predict_columns ::
  "np_env \<Rightarrow> int \<Rightarrow> (string \<times> pyfloat list) list \<Rightarrow> (string \<times> pyfloat) list
     \<Rightarrow> (string \<times> pyfloat) list \<Rightarrow> exn + (string \<times> pyfloat) list \<times> (string \<times> pyfloat) list" where
  "predict_columns env hours_ahead [] predictions trends = Inr (predictions, trends)"
| "predict_columns env hours_ahead ((column, vals) # cols) predictions trends =
     (if 3 \<le> length vals then
        (case np_polyfit_slope env vals of
           Inl e \<Rightarrow> Inl e
         | Inr trend \<Rightarrow>
             (let latest_value = last vals in
              case float_mul_int trend hours_ahead of
                Inl e \<Rightarrow> Inl e
              | Inr product \<Rightarrow>
                  (let predicted_value = float_add latest_value product
                   in predict_columns env hours_ahead cols
                        (predictions @ [(column, float_round 2 predicted_value)])
                        (trends @ [(column, trend)]))))
      else predict_columns env hours_ahead cols predictions trends)"

text \<open>\<open>predictions.get(k, default)\<close>; the default is an int of the source.\<close>

definition dict_get_or :: "(string \<times> pyfloat) list \<Rightarrow> string \<Rightarrow> pyfloat \<Rightarrow> pyfloat" where
  "dict_get_or d k dflt = (case map_of d k of None \<Rightarrow> dflt | Some v \<Rightarrow> v)"

definition predict_future_conditions ::
  "np_env \<Rightarrow> TelemetryData list \<Rightarrow> int \<Rightarrow> exn + PredictionResponse" where
  "predict_future_conditions env historical_data hours_ahead =
     (if length historical_data < 5 then
        mk_PredictionResponse ''insufficient_data'' hours_ahead [] (Finite 0)
          [''Collect more sensor data for accurate predictions'']
          [''Insufficient historical data'']
      else
        (case predict_columns env hours_ahead (data_frame historical_data) [] [] of
           Inl e \<Rightarrow> Inl e
         | Inr (predictions, trends) \<Rightarrow>
             (let (risk_factors1, recommendations1) =
                    (if float_lt (Finite 30) (dict_get_or predictions ''temperature'' (Finite 20))
                     then ([''Temperature trending too high''], [''Prepare cooling measures''])
                     else if float_lt (dict_get_or predictions ''temperature'' (Finite 20)) (Finite 15)
                     then ([''Temperature trending too low''], [''Prepare heating''])
                     else ([], []));
                  (risk_factors2, recommendations2) =
                    (if float_lt (dict_get_or predictions ''soil_moisture'' (float_lit (1 / 2)))
                          (float_lit (2 / 10))
                     then (risk_factors1 @ [''Soil moisture decreasing rapidly''],
                           recommendations1 @ [''Schedule watering''])
                     else (risk_factors1, recommendations1));
                  confidence0 = float_lit (7 / 10);
                  confidence1 =
                    (if list_all (\<lambda>(column, trend). float_lt (float_abs trend) (float_lit (1 / 10)))
                          trends
                     then float_add confidence0 (float_lit (2 / 10)) else confidence0)
              in mk_PredictionResponse ''trend_analysis'' hours_ahead predictions confidence1
                   recommendations2 risk_factors2)))"

text \<open>A reading with the given temperature and steady other values.\<close>

definition steady :: "rat \<Rightarrow> TelemetryData" where
  "steady te = \<lparr>temperature = te, humidity = 60, soil_moisture = 1 / 2, co2_level = 800,
                light_level = Some 450, ph_level = None, nutrient_level = None\<rparr>"


text \<open>The slope of the least-squares line through the points \<open>(i, ys[i])\<close>, exactly,
  by the closed formula of the normal equations.\<close>

definition least_squares_slope :: "rat list \<Rightarrow> rat" where
  "least_squares_slope ys =
     (let n = of_nat (length ys);
          xs = map of_nat [0..<length ys];
          sx = sum_list xs;
          sy = sum_list ys;
          sxx = sum_list (map (\<lambda>x. x * x) xs);
          sxy = sum_list (map2 (\<lambda>x y. x * y) xs ys)
      in (n * sxy - sx * sy) / (n * sxx - sx * sx))"

definition finite_value :: "pyfloat \<Rightarrow> rat" where
  "finite_value x = (case x of Finite a \<Rightarrow> a | _ \<Rightarrow> 0)"

text \<open>A numpy whose fit returns the double nearest to the exact least-squares slope
  of finite values; numpy's own result is that slope up to the rounding errors of
  its solver.\<close>

definition np_nearest :: np_env where
  "np_nearest =
     \<lparr>np_polyfit_slope =
        (\<lambda>vals. if list_all (\<lambda>v. float_le v v \<and> float_abs v \<noteq> PosInf) vals
                then Inr (round_double (least_squares_slope (map finite_value vals)))
                else Inl LinAlgError)\<rparr>"

section \<open>Scheduler: the alert check (services/scheduler.py)\<close>

text \<open>An alert dict; the key \<open>type\<close> is the field \<open>alert_type\<close>.\<close>

record alert =
  alert_type :: string
  title :: string
  message :: string
  category :: string

text \<open>The degree sign of the messages, one character of the Python string.\<close>

definition degree_sign :: char where
  "degree_sign = CHR 0xB0"

definition threshold_alerts :: "TelemetryData \<Rightarrow> alert list" where
  "threshold_alerts latest =
     (let a0 = [];
          a1 = (if temperature latest < 15 then
                  a0 @ [\<lparr>alert_type = ''critical'', title = ''Critical Low Temperature'',
                         message = ''Temperature is '' @ str_float (temperature latest) @
                                   [degree_sign] @ ''C - Risk of plant damage'',
                         category = ''temperature''\<rparr>]
                else if temperature latest > 35 then
                  a0 @ [\<lparr>alert_type = ''critical'', title = ''Critical High Temperature'',
                         message = ''Temperature is '' @ str_float (temperature latest) @
                                   [degree_sign] @ ''C - Risk of heat stress'',
                         category = ''temperature''\<rparr>]
                else a0);
          a2 = (if humidity latest < 25 then
                  a1 @ [\<lparr>alert_type = ''warning'', title = ''Low Humidity Alert'',
                         message = ''Humidity is '' @ str_float (humidity latest) @
                                   ''% - Consider humidification'',
                         category = ''humidity''\<rparr>]
                else if humidity latest > 85 then
                  a1 @ [\<lparr>alert_type = ''warning'', title = ''High Humidity Alert'',
                         message = ''Humidity is '' @ str_float (humidity latest) @
                                   ''% - Risk of fungal issues'',
                         category = ''humidity''\<rparr>]
                else a1);
          a3 = (if soil_moisture latest < 2 / 10 then
                  a2 @ [\<lparr>alert_type = ''critical'', title = ''Low Soil Moisture'',
                         message = ''Soil moisture is '' @ fmt_2f (soil_moisture latest) @
                                   '' - Plant needs watering'',
                         category = ''watering''\<rparr>]
                else if soil_moisture latest > 9 / 10 then
                  a2 @ [\<lparr>alert_type = ''warning'', title = ''Overwatering Risk'',
                         message = ''Soil moisture is '' @ fmt_2f (soil_moisture latest) @
                                   '' - Risk of root rot'',
                         category = ''watering''\<rparr>]
                else a2);
          a4 = (if co2_level latest < 300 then
                  a3 @ [\<lparr>alert_type = ''info'', title = ''Low CO2 Levels'',
                         message = ''CO2 is '' @ str_int (co2_level latest) @
                                   ''ppm - Consider ventilation adjustment'',
                         category = ''air_quality''\<rparr>]
                else a3)
      in a4)"

text \<open>A message handed to \<open>websocket_manager.broadcast\<close> by the alert check.\<close>

record alerts_event =
  event_type :: string
  event_data :: "alert list"
  event_timestamp :: datetime

text \<open>\<open>_check_alerts\<close>: the broadcasts of one run, in order; \<open>held\<close> is the
  \<open>latest_reading\<close> of the sensor service and \<open>now\<close> the clock.\<close>

definition check_alerts :: "TelemetryData option \<Rightarrow> datetime \<Rightarrow> alerts_event list" where
  "check_alerts held now =
     (case held of
        None \<Rightarrow> []
      | Some latest \<Rightarrow>
          (let alerts = threshold_alerts latest
           in if alerts \<noteq> []
              then [\<lparr>event_type = ''new_alerts'', event_data = alerts, event_timestamp = now\<rparr>]
              else []))"

section \<open>The events the services publish\<close>

definition pad2 :: "int \<Rightarrow> string" where
  "pad2 n = [digit_char (nat (n div 10 mod 10)), digit_char (nat (n mod 10))]"

definition pad4 :: "int \<Rightarrow> string" where
  "pad4 n = pad2 (n div 100) @ pad2 n"

definition pad6 :: "int \<Rightarrow> string" where
  "pad6 n = pad2 (n div 10000) @ pad4 n"

text \<open>Year, month and day of the day that is \<open>days\<close> days after 0001-01-01, in the
  proleptic Gregorian calendar, counted in years that begin with March.\<close>

definition civil_from_days :: "int \<Rightarrow> int \<times> int \<times> int" where
  "civil_from_days days =
     (let z = days + 306;
          era = z div 146097;
          doe = z mod 146097;
          yoe = (doe - doe div 1460 + doe div 36524 - doe div 146096) div 365;
          doy = doe - (365 * yoe + yoe div 4 - yoe div 100);
          mp = (5 * doy + 2) div 153;
          d = doy - (153 * mp + 2) div 5 + 1;
          m = (if mp < 10 then mp + 3 else mp - 9);
          y = yoe + era * 400 + (if m \<le> 2 then 1 else 0)
      in (y, m, d))"

text \<open>\<open>datetime.isoformat()\<close>: \<open>YYYY-MM-DDTHH:MM:SS\<close>, and \<open>.ffffff\<close> when the
  microseconds are not zero.\<close>

definition isoformat :: "datetime \<Rightarrow> string" where
  "isoformat t =
     (let us = t mod 1000000;
          s = t div 1000000;
          (y, m, d) = civil_from_days (s div 86400)
      in pad4 y @ ''-'' @ pad2 m @ ''-'' @ pad2 d @ ''T'' @
         pad2 (s div 3600 mod 24) @ '':'' @ pad2 (s div 60 mod 60) @ '':'' @ pad2 (s mod 60) @
         (if us = 0 then [] else ''.'' @ pad6 us))"

text \<open>The dict literal of the broadcasts: \<open>type\<close>, \<open>data\<close> and the clock as
  \<open>timestamp\<close>.\<close>

definition event :: "string \<Rightarrow> json \<Rightarrow> datetime \<Rightarrow> json" where
  "event ty payload now =
     JObj [(''type'', JStr ty), (''data'', payload), (''timestamp'', JStr (isoformat now))]"

definition opt_float :: "rat option \<Rightarrow> json" where
  "opt_float v = (case v of None \<Rightarrow> JNull | Some q \<Rightarrow> JFloat q)"

text \<open>\<open>telemetry.dict()\<close>.\<close>

definition TelemetryData_dict :: "TelemetryData \<Rightarrow> (string \<times> json) list" where
  "TelemetryData_dict t =
     [(''temperature'', JFloat (temperature t)), (''humidity'', JFloat (humidity t)),
      (''soil_moisture'', JFloat (soil_moisture t)), (''co2_level'', JInt (co2_level t)),
      (''light_level'', opt_float (light_level t)), (''ph_level'', opt_float (ph_level t)),
      (''nutrient_level'', opt_float (nutrient_level t))]"

text \<open>The \<open>.dict()\<close> of a \<open>PlantHealthResponse\<close>, from its fields in the order of the
  schema; the \<open>timestamp\<close> is a \<open>datetime\<close> object.\<close>

definition PlantHealthResponse_dict ::
  "rat \<Rightarrow> rat \<Rightarrow> rat \<Rightarrow> string list \<Rightarrow> string list \<Rightarrow> rat \<Rightarrow> datetime \<Rightarrow> (string \<times> json) list" where
  "PlantHealthResponse_dict health_score growth_rate_score disease_probability stress_indicators
       care_recommendations confidence_level created =
     [(''health_score'', JFloat health_score), (''growth_rate_score'', JFloat growth_rate_score),
      (''disease_probability'', JFloat disease_probability),
      (''stress_indicators'', JList (map JStr stress_indicators)),
      (''recommendations'', JList (map JStr care_recommendations)),
      (''confidence_level'', JFloat confidence_level),
      (''timestamp'', PyDatetime created)]"

text \<open>The messages handed to \<open>websocket_manager.broadcast\<close>, one definition for each
  call in the sources: in the sensor service,\<close>

definition telemetry_update_message :: "TelemetryData \<Rightarrow> datetime \<Rightarrow> json" where
  "telemetry_update_message t now = event ''telemetry_update'' (JObj (TelemetryData_dict t)) now"

text \<open>in the scheduler (\<open>analysis\<close> and \<open>prediction\<close> are the \<open>.dict()\<close> of the
  response, \<open>status\<close> the dict of the system status),\<close>

definition health_analysis_message :: "(string \<times> json) list \<Rightarrow> datetime \<Rightarrow> json" where
  "health_analysis_message analysis now = event ''health_analysis'' (JObj analysis) now"

definition alert_dict :: "alert \<Rightarrow> json" where
  "alert_dict a =
     JObj [(''type'', JStr (alert_type a)), (''title'', JStr (title a)),
           (''message'', JStr (message a)), (''category'', JStr (category a))]"

definition new_alerts_message :: "alerts_event \<Rightarrow> json" where
  "new_alerts_message e =
     event (event_type e) (JList (map alert_dict (event_data e))) (event_timestamp e)"

definition prediction_update_message :: "(string \<times> json) list \<Rightarrow> datetime \<Rightarrow> json" where
  "prediction_update_message prediction now = event ''prediction_update'' (JObj prediction) now"

definition predictive_alert_message :: "string list \<Rightarrow> string list \<Rightarrow> int \<Rightarrow> datetime \<Rightarrow> json" where
  "predictive_alert_message risks recs hours now =
     event ''predictive_alert''
       (JObj [(''risks'', JList (map JStr risks)), (''recommendations'', JList (map JStr recs)),
              (''forecast_hours'', JInt hours)]) now"

definition system_alert_message :: "string list \<Rightarrow> (string \<times> json) list \<Rightarrow> datetime \<Rightarrow> json" where
  "system_alert_message issues status now =
     event ''system_alert''
       (JObj [(''issues'', JList (map JStr issues)), (''status'', JObj status)]) now"

definition emergency_alert_message :: "rat \<Rightarrow> string list \<Rightarrow> string list \<Rightarrow> datetime \<Rightarrow> json" where
  "emergency_alert_message health_score actions recs now =
     event ''emergency_alert''
       (JObj [(''health_score'', JFloat health_score), (''actions'', JList (map JStr actions)),
              (''recommendations'', JList (map JStr recs))]) now"

text \<open>and in the routes.\<close>

definition new_analysis_message :: "(string \<times> json) list \<Rightarrow> datetime \<Rightarrow> json" where
  "new_analysis_message analysis now = event ''new_analysis'' (JObj analysis) now"

definition actuator_action_message ::
  "string \<Rightarrow> (string \<times> json) list \<Rightarrow> string \<Rightarrow> datetime \<Rightarrow> json" where
  "actuator_action_message action parameters triggered_by now =
     event ''actuator_action''
       (JObj [(''action'', JStr action), (''parameters'', JObj parameters),
              (''triggered_by'', JStr triggered_by), (''success'', JBool True)]) now"

definition alert_acknowledged_message :: "string \<Rightarrow> datetime \<Rightarrow> json" where
  "alert_acknowledged_message alert_id now =
     event ''alert_acknowledged'' (JObj [(''alert_id'', JStr alert_id)]) now"

definition system_restarted_message :: "datetime \<Rightarrow> datetime \<Rightarrow> json" where
  "system_restarted_message restarted now =
     event ''system_restarted'' (JObj [(''timestamp'', JStr (isoformat restarted))]) now"

definition system_error_message :: "string \<Rightarrow> datetime \<Rightarrow> json" where
  "system_error_message err now = event ''system_error'' (JObj [(''error'', JStr err)]) now"

text \<open>The envelope with a list as \<open>data\<close>, as the alert batch has it.\<close>

definition has_list_envelope :: "json \<Rightarrow> bool" where
  "has_list_envelope m =
     (case m of
        JObj kv \<Rightarrow>
          (case map_of kv ''type'' of Some (JStr _) \<Rightarrow> True | _ \<Rightarrow> False) \<and>
          (case map_of kv ''data'' of Some (JList _) \<Rightarrow> True | _ \<Rightarrow> False) \<and>
          (case map_of kv ''timestamp'' of Some (JStr t) \<Rightarrow> iso8601 t | _ \<Rightarrow> False)
      | _ \<Rightarrow> False)"

text \<open>The reading of the cold greenhouse, and a health analysis as the scheduler
  publishes it.\<close>

definition cold_reading :: TelemetryData where
  "cold_reading = \<lparr>temperature = 12, humidity = 60, soil_moisture = 6 / 10, co2_level = 800,
                    light_level = None, ph_level = None, nutrient_level = None\<rparr>"

definition sample_analysis :: "(string \<times> json) list" where
  "sample_analysis =
     PlantHealthResponse_dict 80 75 (1 / 10) [] [] (9 / 10) 63900000000000000"


section \<open>History buffer: FIFO eviction\<close>

lemma add_to_history_max_history: "max_history (add_to_history s t now) = max_history s"
  by (simp add: add_to_history_def Let_def)

lemma add_to_history_history:
  assumes "0 < max_history s"
  shows "reading_history (add_to_history s t now) =
         drop (Suc (length (reading_history s)) - nat (max_history s))
           (reading_history s @ [\<lparr>telemetry = t, timestamp = now\<rparr>])"
proof (cases "int (Suc (length (reading_history s))) > max_history s")
  case True
  have "nat (1 + int (length (reading_history s)) - max_history s)
        = Suc (length (reading_history s)) - nat (max_history s)"
    using assms by linarith
  with True assms show ?thesis
    by (simp add: add_to_history_def Let_def py_slice_from_def max_def)
next
  case False
  then have "Suc (length (reading_history s)) - nat (max_history s) = 0"
    by linarith
  with False show ?thesis
    by (simp add: add_to_history_def Let_def)
qed

lemma drop_last_snoc:
  assumes "0 < m"
  shows "drop (Suc (length (drop (length h - m) h)) - m) (drop (length h - m) h @ [r])
         = drop (Suc (length h) - m) (h @ [r])"
proof (cases "length h \<le> m")
  case True
  then show ?thesis by simp
next
  case False
  define k where "k = length h - m"
  have k: "Suc k \<le> length h" "length h - k = m" "Suc (length h) - m = Suc k"
    using False assms by (simp_all add: k_def)
  have "drop (Suc (length (drop k h)) - m) (drop k h @ [r]) = drop (Suc 0) (drop k h @ [r])"
    using k assms by simp
  also have "\<dots> = drop (Suc 0) (drop k h) @ [r]"
    using k by simp
  also have "\<dots> = drop (Suc k) h @ [r]"
    by simp
  also have "\<dots> = drop (Suc k) (h @ [r])"
    using k by simp
  finally show ?thesis
    using k by (simp add: k_def)
qed

lemma add_all_snoc: "add_all s (xs @ [(t, now)]) = add_to_history (add_all s xs) t now"
  by (simp add: add_all_def)

lemma add_all_max_history: "max_history (add_all s xs) = max_history s"
proof (induction xs rule: rev_induct)
  case Nil
  then show ?case by (simp add: add_all_def)
next
  case (snoc x xs)
  then show ?case
    by (cases x) (simp add: add_all_snoc add_to_history_max_history)
qed

lemma add_all_history:
  assumes "0 < max_history s" and "reading_history s = []"
  shows "reading_history (add_all s xs) =
           drop (length xs - nat (max_history s)) (map reading_of xs)"
proof (induction xs rule: rev_induct)
  case Nil
  then show ?case using assms by (simp add: add_all_def)
next
  case (snoc x xs)
  obtain t now where x: "x = (t, now)" by (cases x)
  define m where "m = nat (max_history s)"
  define h where "h = map reading_of xs"
  have r: "reading_of x = \<lparr>telemetry = t, timestamp = now\<rparr>"
    by (simp add: reading_of_def x)
  have pos: "0 < max_history (add_all s xs)"
    using assms by (simp add: add_all_max_history)
  have mpos: "0 < m" using assms by (simp add: m_def)
  have IH: "reading_history (add_all s xs) = drop (length h - m) h"
    using snoc by (simp add: m_def h_def)
  have "reading_history (add_all s (xs @ [x])) =
        drop (Suc (length (drop (length h - m) h)) - m) (drop (length h - m) h @ [reading_of x])"
    unfolding x add_all_snoc add_to_history_history[OF pos] add_all_max_history IH m_def
    by (simp add: reading_of_def)
  also have "\<dots> = drop (Suc (length h) - m) (h @ [reading_of x])"
    by (rule drop_last_snoc[OF mpos])
  finally show ?case
    by (simp add: h_def m_def)
qed

text \<open>
  Claim C1. Starting from the empty buffer of a new service (capacity
  \<open>max_history = 1000\<close>), after any run of \<open>_add_to_history\<close> calls the buffer holds
  exactly the most recent 1000 readings (all of them while there are at most 1000),
  in arrival order: the oldest are the ones dropped.
\<close>

theorem add_to_history_fifo:
  "reading_history (add_all SensorService_init xs) = drop (length xs - 1000) (map reading_of xs)"
  using add_all_history[of SensorService_init xs] by (simp add: SensorService_init_def)

theorem add_to_history_fifo_witness:
  "reading_history (add_all SensorService_init [(steady 20, 5), (steady 21, 6)]) =
     [\<lparr>telemetry = steady 20, timestamp = 5\<rparr>, \<lparr>telemetry = steady 21, timestamp = 6\<rparr>]"
  using add_to_history_fifo[of "[(steady 20, 5), (steady 21, 6)]"]
  by (simp add: reading_of_def)

section \<open>History buffer: the time-window query\<close>

lemma history_loop_filter:
  "history_loop c rs acc = acc @ filter (\<lambda>r. c \<le> timestamp r) rs"
  by (induction rs arbitrary: acc) simp_all

lemma get_history_Inr:
  assumes "get_history s now hours = Inr rs"
  shows "rs = filter (\<lambda>r. now - hours * 3600000000 \<le> timestamp r) (reading_history s)"
  using assms
  by (auto simp: get_history_def timedelta_hours_def datetime_sub_def Let_def history_loop_filter
           split: sum.splits if_splits)

text \<open>
  Claim C5. Whatever the stored history and the duration \<open>hours\<close>, when
  \<open>get_history\<close> returns a list, no entry of it has a timestamp before
  \<open>now - hours\<close> (in microseconds), and the list is a subsequence of the history:
  the entries keep the relative order in which they were inserted.
\<close>

theorem get_history_window:
  assumes "get_history s now hours = Inr rs"
  shows "list_all (\<lambda>r. now - hours * 3600000000 \<le> timestamp r) rs \<and>
         subseq rs (reading_history s)"
  unfolding get_history_Inr[OF assms] by (simp add: list_all_iff)

text \<open>The query does return whenever the cutoff is a representable datetime, and it
  then returns every entry of the window.\<close>

lemma get_history_returns:
  assumes "0 \<le> now - hours * 3600000000" and "now - hours * 3600000000 < datetime_max_us"
    and "- 23999999976 \<le> hours" and "hours < 24000000000"
  shows "get_history s now hours =
         Inr (filter (\<lambda>r. now - hours * 3600000000 \<le> timestamp r) (reading_history s))"
proof -
  have "- 999999999 \<le> hours div 24" "hours div 24 \<le> 999999999"
    using assms(3,4) by presburger+
  then show ?thesis
    using assms(1,2)
    by (simp add: get_history_def timedelta_hours_def datetime_sub_def Let_def history_loop_filter)
qed

theorem get_history_window_witness:
  "get_history
     (SensorService_init\<lparr>reading_history :=
        [\<lparr>telemetry = \<lparr>temperature = 22, humidity = 55, soil_moisture = 1/2, co2_level = 800,
            light_level = None, ph_level = None, nutrient_level = None\<rparr>,
          timestamp = 63800000000000000\<rparr>,
         \<lparr>telemetry = \<lparr>temperature = 23, humidity = 56, soil_moisture = 1/2, co2_level = 810,
            light_level = None, ph_level = None, nutrient_level = None\<rparr>,
          timestamp = 63899990000000000\<rparr>]\<rparr>)
     63900000000000000 24
   = Inr [\<lparr>telemetry = \<lparr>temperature = 23, humidity = 56, soil_moisture = 1/2, co2_level = 810,
            light_level = None, ph_level = None, nutrient_level = None\<rparr>,
          timestamp = 63899990000000000\<rparr>]
   \<and> list_all (\<lambda>r. 63900000000000000 - 24 * 3600000000 \<le> timestamp r)
       [\<lparr>telemetry = \<lparr>temperature = 23, humidity = 56, soil_moisture = 1/2, co2_level = 810,
            light_level = None, ph_level = None, nutrient_level = None\<rparr>,
          timestamp = 63899990000000000\<rparr>]"
proof -
  let ?old = "\<lparr>telemetry = \<lparr>temperature = 22, humidity = 55, soil_moisture = 1/2, co2_level = 800,
            light_level = None, ph_level = None, nutrient_level = None\<rparr>,
          timestamp = 63800000000000000\<rparr>"
  let ?new = "\<lparr>telemetry = \<lparr>temperature = 23, humidity = 56, soil_moisture = 1/2, co2_level = 810,
            light_level = None, ph_level = None, nutrient_level = None\<rparr>,
          timestamp = 63899990000000000\<rparr>"
  have h: "get_history (SensorService_init\<lparr>reading_history := [?old, ?new]\<rparr>)
             63900000000000000 24 = Inr [?new]"
    by (simp add: get_history_def timedelta_hours_def datetime_sub_def datetime_max_us_def
        Let_def SensorService_init_def)
  from get_history_window[OF h] h show ?thesis by simp
qed

section \<open>Broadcast hub: unregistering\<close>

lemma disconnect_eq:
  "disconnect s w =
     Inr (if w \<in> set (active_connections s)
          then \<lparr>active_connections = remove1 w (active_connections s),
                connection_data = (connection_data s)(w := None)\<rparr>
          else s)"
proof (cases "w \<in> dom (connection_data s)")
  case True
  then show ?thesis
    by (simp add: disconnect_def list_remove_def dict_del_def)
next
  case False
  then have "(connection_data s)(w := None) = connection_data s"
    by (simp add: domIff)
  with False show ?thesis
    by (simp add: disconnect_def list_remove_def)
qed

lemma disconnect_absent:
  "w \<notin> set (active_connections s) \<Longrightarrow> disconnect s w = Inr s"
  by (simp add: disconnect_eq)

text \<open>The connections stay pairwise different: a handle is registered by \<open>connect\<close>,
  once per socket, and the other operations only remove.\<close>

lemma disconnect_distinct:
  assumes "distinct (active_connections s)" and "disconnect s w = Inr s'"
  shows "distinct (active_connections s')"
  using assms by (auto simp: disconnect_eq split: if_splits)

lemma send_personal_message_distinct:
  assumes "distinct (active_connections s)" and "send_personal_message env s m w = Inr (s', out)"
  shows "distinct (active_connections s')"
  using assms
  by (auto simp: send_personal_message_def disconnect_eq split: sum.splits if_splits)

lemma connect_distinct:
  assumes "distinct (active_connections s)" and "w \<notin> set (active_connections s)"
    and "connect env s w t1 t2 = Inr (s', out)"
  shows "distinct (active_connections s')"
proof (cases "ws_accept env w")
  case (Inl e)
  with assms(3) show ?thesis by (simp add: connect_def)
next
  case (Inr u)
  let ?s = "\<lparr>active_connections = active_connections s @ [w],
             connection_data =
               (connection_data s)(w \<mapsto> \<lparr>connected_at = t1, subscriptions = None\<rparr>)\<rparr>"
  have "distinct (active_connections ?s)"
    using assms(1,2) by simp
  moreover have "send_personal_message env ?s
      (JObj [(''type'', JStr ''connection''),
             (''message'', JStr ''Connected to Green Genesis Python Backend''),
             (''timestamp'', JFloat t2)]) w = Inr (s', out)"
    using assms(3) Inr by (simp add: connect_def)
  ultimately show ?thesis
    by (rule send_personal_message_distinct)
qed

text \<open>
  Claim C8. For a subscriber set (the connections are pairwise different, as they
  are when each socket is registered once) and any handle, \<open>disconnect\<close> does not
  raise, and calling it again on the state it produced returns that same state, the
  per-connection metadata included: the handle is then no longer registered, which
  is also the case of a handle that a failed broadcast has removed before.
\<close>

theorem disconnect_idempotent:
  assumes "distinct (active_connections s)"
  shows "\<exists>s1. disconnect s w = Inr s1 \<and> disconnect s1 w = Inr s1 \<and>
              w \<notin> set (active_connections s1)"
proof (cases "w \<in> set (active_connections s)")
  case True
  let ?s1 = "\<lparr>active_connections = remove1 w (active_connections s),
              connection_data = (connection_data s)(w := None)\<rparr>"
  have "w \<notin> set (active_connections ?s1)"
    using assms by simp
  then have "disconnect ?s1 w = Inr ?s1"
    by (rule disconnect_absent)
  moreover have "disconnect s w = Inr ?s1"
    using True by (simp add: disconnect_eq)
  ultimately show ?thesis
    using \<open>w \<notin> set (active_connections ?s1)\<close> by blast
next
  case False
  then show ?thesis
    by (simp add: disconnect_absent)
qed

theorem disconnect_idempotent_witness:
  "distinct [1, 2, 3 :: nat] \<and>
   (\<exists>s1. disconnect \<lparr>active_connections = [1, 2, 3], connection_data = Map.empty\<rparr> 2 = Inr s1 \<and>
         disconnect s1 2 = Inr s1 \<and> 2 \<notin> set (active_connections s1))"
proof -
  have d: "distinct (active_connections \<lparr>active_connections = [1, 2, 3 :: nat], connection_data = Map.empty\<rparr>)"
    by simp
  from disconnect_idempotent[OF d, of 2] show ?thesis by simp
qed

section \<open>Broadcast hub: publishing\<close>

lemma broadcast_loop_filter:
  "broadcast_loop env m cs disc = disc @ filter (delivery_fails env m) cs"
  by (induction cs arbitrary: disc) (simp_all add: delivery_fails_def split: sum.splits)

lemma restrict_map_upd_None:
  "(d(x := None)) |` (- A) = d |` (- insert x A)"
  by (rule ext) (simp add: restrict_map_def)

lemma disconnect_all_failed:
  assumes "\<And>y. y \<in> set ys \<Longrightarrow> \<not> P y"
  shows "disconnect_all \<lparr>active_connections = ys @ xs, connection_data = d\<rparr> (filter P xs) =
         Inr \<lparr>active_connections = ys @ filter (\<lambda>c. \<not> P c) xs,
              connection_data = d |` (- {c \<in> set xs. P c})\<rparr>"
  using assms
proof (induction xs arbitrary: ys d)
  case Nil
  then show ?case by simp
next
  case (Cons x xs)
  show ?case
  proof (cases "P x")
    case True
    then have "x \<notin> set ys" using Cons.prems by blast
    then have r: "remove1 x (ys @ x # xs) = ys @ xs"
      by (simp add: remove1_append)
    have step: "disconnect \<lparr>active_connections = ys @ x # xs, connection_data = d\<rparr> x =
                Inr \<lparr>active_connections = ys @ xs, connection_data = d(x := None)\<rparr>"
      by (simp add: disconnect_eq r)
    have rest: "disconnect_all \<lparr>active_connections = ys @ xs, connection_data = d(x := None)\<rparr>
                  (filter P xs) =
                Inr \<lparr>active_connections = ys @ filter (\<lambda>c. \<not> P c) xs,
                     connection_data = (d(x := None)) |` (- {c \<in> set xs. P c})\<rparr>"
      by (rule Cons.IH) (rule Cons.prems)
    have s: "{c \<in> set (x # xs). P c} = insert x {c \<in> set xs. P c}"
      using True by auto
    have f: "filter P (x # xs) = x # filter P xs" "filter (\<lambda>c. \<not> P c) (x # xs) = filter (\<lambda>c. \<not> P c) xs"
      using True by simp_all
    show ?thesis
      unfolding f s disconnect_all.simps step sum.case rest restrict_map_upd_None ..
  next
    case False
    then have p: "\<And>y. y \<in> set (ys @ [x]) \<Longrightarrow> \<not> P y"
      using Cons.prems by auto
    have s: "{c \<in> set (x # xs). P c} = {c \<in> set xs. P c}"
      using False by auto
    have f: "filter P (x # xs) = filter P xs" "filter (\<lambda>c. \<not> P c) (x # xs) = x # filter (\<lambda>c. \<not> P c) xs"
      using False by simp_all
    have "disconnect_all \<lparr>active_connections = (ys @ [x]) @ xs, connection_data = d\<rparr> (filter P xs) =
          Inr \<lparr>active_connections = (ys @ [x]) @ filter (\<lambda>c. \<not> P c) xs,
               connection_data = d |` (- {c \<in> set xs. P c})\<rparr>"
      by (rule Cons.IH) (rule p)
    then show ?thesis
      unfolding f s by simp
  qed
qed

lemma broadcast_eq:
  "broadcast env s m =
     Inr \<lparr>active_connections = filter (\<lambda>c. \<not> delivery_fails env m c) (active_connections s),
          connection_data =
            connection_data s |` (- {c \<in> set (active_connections s). delivery_fails env m c})\<rparr>"
proof -
  obtain ac d where s: "s = \<lparr>active_connections = ac, connection_data = d\<rparr>"
    by (cases s) simp
  have "disconnect_all \<lparr>active_connections = [] @ ac, connection_data = d\<rparr>
          (filter (delivery_fails env m) ac) =
        Inr \<lparr>active_connections = [] @ filter (\<lambda>c. \<not> delivery_fails env m c) ac,
             connection_data = d |` (- {c \<in> set ac. delivery_fails env m c})\<rparr>"
    by (rule disconnect_all_failed) simp
  then show ?thesis
    by (simp add: broadcast_def broadcast_loop_filter s)
qed

text \<open>What \<open>broadcast\<close> does, for any registered connections and any message: it
  returns a state, and the connections left are those for which the body of the
  \<open>try\<close> did not raise, with the metadata of the others deleted.\<close>

lemma broadcast_removes_failed:
  "\<exists>s'. broadcast env s m = Inr s' \<and>
        active_connections s' =
          filter (\<lambda>c. \<not> delivery_fails env m c) (active_connections s) \<and>
        get_connection_count s' =
          get_connection_count s - length (filter (delivery_fails env m) (active_connections s)) \<and>
        connection_data s' =
          connection_data s |` (- {c \<in> set (active_connections s). delivery_fails env m c})"
proof -
  have "length (filter (\<lambda>c. \<not> delivery_fails env m c) (active_connections s)) =
        length (active_connections s) - length (filter (delivery_fails env m) (active_connections s))"
    using sum_length_filter_compl[of "delivery_fails env m" "active_connections s"] by linarith
  then show ?thesis
    by (simp add: broadcast_eq get_connection_count_def)
qed

lemma broadcast_distinct:
  assumes "distinct (active_connections s)" and "broadcast env s m = Inr s'"
  shows "distinct (active_connections s')"
  using assms by (auto simp: broadcast_eq)

lemma delivery_fails_unserialisable:
  assumes "json_dumps env m = Inl e"
  shows "delivery_fails env m c"
  using assms by (simp add: delivery_fails_def try_send_def)

lemma sample_analysis_unserialisable:
  "json_dumps env_open (health_analysis_message sample_analysis now) = Inl TypeError"
  by (simp add: env_open_def health_analysis_message_def event_def sample_analysis_def
      PlantHealthResponse_dict_def)

text \<open>
  Claim C2, where the code departs from it. Three subscribers are registered and
  every channel is open: no delivery fails for a closed channel or a write error
  (N = 3, M = 0). The scheduler broadcasts a health analysis; its \<open>.dict()\<close> holds a
  \<open>datetime\<close>, \<open>json.dumps\<close> raises TypeError inside the \<open>try\<close> for each connection,
  and \<open>broadcast\<close>, which does not raise, removes all three subscribers and their
  metadata, where the claim leaves all three registered.
\<close>

theorem broadcast_drops_open_channels:
  "ws_send_text env_open 1 ''{}'' = Inr () \<and>
   ws_send_text env_open 2 ''{}'' = Inr () \<and>
   ws_send_text env_open 3 ''{}'' = Inr () \<and>
   json_dumps env_open (health_analysis_message sample_analysis 63900000000000000) = Inl TypeError \<and>
   get_connection_count three_clients = 3 \<and>
   broadcast env_open three_clients (health_analysis_message sample_analysis 63900000000000000) =
     Inr \<lparr>active_connections = [], connection_data = Map.empty\<rparr>"
proof -
  have f: "delivery_fails env_open (health_analysis_message sample_analysis 63900000000000000) c"
    for c
    by (rule delivery_fails_unserialisable) (rule sample_analysis_unserialisable)
  have "connection_data three_clients |` (- {c. c \<in> set (active_connections three_clients)})
        = Map.empty"
    by (auto simp: three_clients_def restrict_map_def fun_eq_iff)
  then have b: "broadcast env_open three_clients
               (health_analysis_message sample_analysis 63900000000000000) =
             Inr \<lparr>active_connections = [], connection_data = Map.empty\<rparr>"
    by (simp add: broadcast_eq f)
  have sends: "ws_send_text env_open c ''{}'' = Inr ()" for c
    by (simp add: env_open_def)
  have n: "get_connection_count three_clients = 3"
    by (simp add: three_clients_def get_connection_count_def)
  show ?thesis
    by (intro conjI) (rule sends sample_analysis_unserialisable n b)+
qed

section \<open>The shape of the messages\<close>

lemma sent_by_send_personal_message:
  "list_all P (sent_by (send_personal_message env s m w)) = (delivery_fails env m w \<or> P m)"
  by (simp add: sent_by_def send_personal_message_def delivery_fails_def disconnect_eq
      split: sum.splits)

lemma sent_by_connect:
  "list_all ((=) (handshake_message t2)) (sent_by (connect env s w t1 t2))"
proof (cases "ws_accept env w")
  case (Inl e)
  then show ?thesis by (simp add: connect_def sent_by_def)
next
  case (Inr u)
  then show ?thesis
    by (simp add: connect_def sent_by_send_personal_message handshake_message_def)
qed

lemma is_hub_reply_pong: "is_hub_reply (JObj [(''type'', JStr ''pong'')])"
  by (simp add: is_hub_reply_def)

lemma is_hub_reply_error:
  "is_hub_reply (JObj [(''type'', JStr ''error''), (''message'', JStr msg)])"
  by (simp add: is_hub_reply_def)

lemma is_hub_reply_subscription:
  assumes "v \<in> set [JStr ''telemetry'', JStr ''alerts'', JStr ''analysis'']"
  shows "is_hub_reply (JObj [(''type'', JStr ''subscription_confirmed''), (''subscription'', v)])"
  using assms by (simp add: is_hub_reply_def)

lemma sent_by_handle_subscription:
  "list_all is_hub_reply (sent_by (handle_subscription env s w m))"
proof (cases m)
  case (JObj kv)
  let ?v = "py_get kv ''subscription''"
  show ?thesis
  proof (cases "?v \<in> set [JStr ''telemetry'', JStr ''alerts'', JStr ''analysis'']")
    case False
    then show ?thesis
      by (simp add: JObj handle_subscription_def Let_def sent_by_def)
  next
    case True
    show ?thesis
    proof (cases "connection_data s w")
      case None
      with True show ?thesis
        by (simp add: JObj handle_subscription_def Let_def sent_by_def)
    next
      case (Some cd)
      have "list_all is_hub_reply (sent_by (send_personal_message env s'
              (JObj [(''type'', JStr ''subscription_confirmed''), (''subscription'', ?v)]) w))"
        for s'
        by (simp add: sent_by_send_personal_message is_hub_reply_subscription[OF True])
      then show ?thesis
        unfolding JObj handle_subscription_def Let_def Some json.case option.case
        using True by simp
    qed
  qed
qed (simp_all add: handle_subscription_def sent_by_def)

lemma sent_by_handle_message:
  "list_all is_hub_reply (sent_by (handle_message env s w d))"
proof (cases "json_loads env d")
  case (Inl e)
  show ?thesis
  proof (cases "e = JSONDecodeError")
    case True
    with Inl show ?thesis
      by (simp add: handle_message_def sent_by_send_personal_message is_hub_reply_error)
  next
    case False
    with Inl show ?thesis
      by (simp add: handle_message_def sent_by_def)
  qed
next
  case (Inr m)
  show ?thesis
  proof (cases m)
    case (JObj kv)
    then show ?thesis
      using Inr
      by (simp add: handle_message_def Let_def sent_by_send_personal_message
          is_hub_reply_pong is_hub_reply_error sent_by_handle_subscription)
  qed (simp_all add: handle_message_def Inr sent_by_def)
qed

lemma is_hub_reply_not_envelope: "is_hub_reply m \<Longrightarrow> \<not> has_envelope m"
  by (auto simp: is_hub_reply_def has_envelope_def split: json.splits)

lemma handshake_not_envelope: "\<not> has_envelope (handshake_message t)"
  by (simp add: handshake_message_def has_envelope_def)

lemma is_digit_below_10:
  assumes "d < 10"
  shows "is_digit (digit_char d)"
proof -
  from assms have "d = 0 \<or> d = 1 \<or> d = 2 \<or> d = 3 \<or> d = 4 \<or> d = 5 \<or> d = 6 \<or> d = 7 \<or>
      d = 8 \<or> d = 9"
    by arith
  then show ?thesis
    by (elim disjE) (simp_all add: is_digit_def digit_char_def)
qed

lemma is_digit_digit_char: "is_digit (digit_char (nat (n mod 10)))"
proof -
  have "nat (n mod 10) < 10" by simp
  then show ?thesis by (rule is_digit_below_10)
qed

lemma pad2_digits: "\<exists>a b. pad2 n = [a, b] \<and> is_digit a \<and> is_digit b"
  by (simp add: pad2_def is_digit_digit_char)

lemma iso8601_isoformat: "iso8601 (isoformat t)"
proof -
  obtain y m d where c: "civil_from_days (t div 1000000 div 86400) = (y, m, d)"
    by (cases "civil_from_days (t div 1000000 div 86400)")
  obtain y1 y2 where y12: "pad2 (y div 100) = [y1, y2]" "is_digit y1" "is_digit y2"
    using pad2_digits by blast
  obtain y3 y4 where y34: "pad2 y = [y3, y4]" "is_digit y3" "is_digit y4"
    using pad2_digits by blast
  obtain m1 m2 where m12: "pad2 m = [m1, m2]" "is_digit m1" "is_digit m2"
    using pad2_digits by blast
  obtain d1 d2 where d12: "pad2 d = [d1, d2]" "is_digit d1" "is_digit d2"
    using pad2_digits by blast
  obtain h1 h2 where h12: "pad2 (t div 1000000 div 3600 mod 24) = [h1, h2]" "is_digit h1" "is_digit h2"
    using pad2_digits by blast
  obtain n1 n2 where n12: "pad2 (t div 1000000 div 60 mod 60) = [n1, n2]" "is_digit n1" "is_digit n2"
    using pad2_digits by blast
  obtain s1 s2 where s12: "pad2 (t div 1000000 mod 60) = [s1, s2]" "is_digit s1" "is_digit s2"
    using pad2_digits by blast
  define rest where "rest = (if t mod 1000000 = 0 then [] else ''.'' @ pad6 (t mod 1000000))"
  have "isoformat t =
        [y1, y2, y3, y4, CHR ''-'', m1, m2, CHR ''-'', d1, d2, CHR ''T'', h1, h2, CHR '':'',
         n1, n2, CHR '':'', s1, s2] @ rest"
    unfolding isoformat_def Let_def c prod.case pad4_def y12 y34 m12 d12 h12 n12 s12 rest_def
    by simp
  then show ?thesis
    using y12 y34 m12 d12 h12 n12 s12 by (simp add: iso8601_def)
qed

lemma has_envelope_event: "has_envelope (event ty (JObj kv) now)"
  by (simp add: has_envelope_def event_def iso8601_isoformat)

lemma has_list_envelope_event: "has_list_envelope (event ty (JList l) now)"
  by (simp add: has_list_envelope_def event_def iso8601_isoformat)

lemma new_alerts_not_envelope: "\<not> has_envelope (new_alerts_message e)"
  by (simp add: new_alerts_message_def event_def has_envelope_def)

lemma cold_reading_event:
  "check_alerts (Some cold_reading) now =
     [\<lparr>event_type = ''new_alerts'',
       event_data =
         [\<lparr>alert_type = ''critical'', title = ''Critical Low Temperature'',
           message = ''Temperature is 12.0'' @ [degree_sign] @ ''C - Risk of plant damage'',
           category = ''temperature''\<rparr>],
       event_timestamp = now\<rparr>]"
proof -
  have "threshold_alerts cold_reading =
     [\<lparr>alert_type = ''critical'', title = ''Critical Low Temperature'',
       message = ''Temperature is 12.0'' @ [degree_sign] @ ''C - Risk of plant damage'',
       category = ''temperature''\<rparr>]"
    by (simp add: cold_reading_def threshold_alerts_def str_float_def str_nat.simps digit_char_def)
  then show ?thesis
    unfolding check_alerts_def option.case Let_def by simp
qed

text \<open>
  Claim C7, as the code has it. Every event the services publish through
  \<open>broadcast\<close> carries the envelope: a string \<open>type\<close>, a \<open>data\<close> that is an object (in
  the \<open>new_alerts\<close> batch, the list of the alerts) and a \<open>timestamp\<close> that is an
  ISO-8601 string. The messages the manager sends itself carry a string \<open>type\<close> and
  no \<open>data\<close>: the handshake carries besides \<open>message\<close> and as \<open>timestamp\<close> the
  reading of the event loop's clock, a number; a pong carries nothing else, an error
  reply a \<open>message\<close>, a subscription confirmation its \<open>subscription\<close>.
\<close>

theorem published_and_hub_messages:
  "list_all ((=) (handshake_message t_sent)) (sent_by (connect env s w t_connected t_sent)) \<and>
   list_all is_hub_reply (sent_by (handle_message env s w d)) \<and>
   has_envelope (telemetry_update_message t now) \<and>
   has_envelope (health_analysis_message analysis now) \<and>
   list_all has_list_envelope (map new_alerts_message (check_alerts held now)) \<and>
   has_envelope (prediction_update_message prediction now) \<and>
   has_envelope (predictive_alert_message risks recs hours now) \<and>
   has_envelope (system_alert_message issues status now) \<and>
   has_envelope (emergency_alert_message health_score actions recs now) \<and>
   has_envelope (new_analysis_message analysis now) \<and>
   has_envelope (actuator_action_message action parameters triggered_by now) \<and>
   has_envelope (alert_acknowledged_message alert_id now) \<and>
   has_envelope (system_restarted_message restarted now) \<and>
   has_envelope (system_error_message err now)"
proof -
  have "list_all has_list_envelope (map new_alerts_message (check_alerts held now))"
    by (simp add: list_all_iff new_alerts_message_def has_list_envelope_event)
  then show ?thesis
    by (simp add: sent_by_connect sent_by_handle_message has_envelope_event
        telemetry_update_message_def health_analysis_message_def prediction_update_message_def
        predictive_alert_message_def system_alert_message_def emergency_alert_message_def
        new_analysis_message_def actuator_action_message_def alert_acknowledged_message_def
        system_restarted_message_def system_error_message_def)
qed

text \<open>The claim as stated fails: the reply to the text \<open>{"type": "ping"}\<close> is
  \<open>{"type": "pong"}\<close>, with neither \<open>data\<close> nor \<open>timestamp\<close>, and the \<open>data\<close> of the
  alert batch of the cold reading is a list, not an object.\<close>

theorem pong_without_envelope:
  "sent_by (handle_message env_open three_clients 1 ping_text) = [JObj [(''type'', JStr ''pong'')]] \<and>
   has_envelope (JObj [(''type'', JStr ''pong'')]) = False \<and>
   map has_envelope (map new_alerts_message (check_alerts (Some cold_reading) 63900000000000000))
     = [False]"
proof -
  have "sent_by (handle_message env_open three_clients 1 ping_text)
        = [JObj [(''type'', JStr ''pong'')]]"
    by (simp add: handle_message_def env_open_def py_get_def send_personal_message_def
        try_send_def sent_by_def)
  moreover have "has_envelope (JObj [(''type'', JStr ''pong'')]) = False"
    by (simp add: has_envelope_def)
  ultimately show ?thesis
    by (simp add: cold_reading_event new_alerts_not_envelope)
qed

theorem published_and_hub_messages_witness:
  "sent_by (connect env_open WebSocketManager_init 1 5 6) = [handshake_message 6] \<and>
   list_all ((=) (handshake_message 6)) (sent_by (connect env_open WebSocketManager_init 1 5 6)) \<and>
   list_all is_hub_reply (sent_by (handle_message env_open three_clients 1 ''ping'')) \<and>
   sent_by (handle_message env_open three_clients 1 ''ping'') =
     [JObj [(''type'', JStr ''error''), (''message'', JStr ''Invalid JSON format'')]] \<and>
   has_envelope (telemetry_update_message cold_reading 63900000000000000) \<and>
   list_all has_list_envelope
     (map new_alerts_message (check_alerts (Some cold_reading) 63900000000000000))"
proof -
  have "sent_by (connect env_open WebSocketManager_init 1 5 6) = [handshake_message 6]"
    by (simp add: connect_def env_open_def send_personal_message_def try_send_def sent_by_def
        handshake_message_def)
  moreover have "sent_by (handle_message env_open three_clients 1 ''ping'') =
     [JObj [(''type'', JStr ''error''), (''message'', JStr ''Invalid JSON format'')]]"
    by (simp add: handle_message_def env_open_def ping_text_def send_personal_message_def
        try_send_def sent_by_def)
  ultimately show ?thesis
    using published_and_hub_messages[where env = env_open and s = WebSocketManager_init
          and w = 1 and t_connected = 5 and t_sent = 6]
      published_and_hub_messages[where env = env_open and s = three_clients and w = 1
          and d = "''ping''" and t = cold_reading and now = 63900000000000000
          and held = "Some cold_reading"]
    by simp
qed

section \<open>Simulated readings\<close>

lemma round_half_even_bounds:
  "y - 1 / 2 \<le> of_int (round_half_even y) \<and> of_int (round_half_even y) \<le> y + 1 / 2"
proof -
  define f where "f = \<lfloor>y\<rfloor>"
  have "of_int f \<le> y" "y < of_int f + 1"
    unfolding f_def by linarith+
  then show ?thesis
    unfolding round_half_even_def Let_def f_def[symmetric] by auto
qed

lemma py_round_1_bounds: "x - 1 / 20 \<le> py_round 1 x \<and> py_round 1 x \<le> x + 1 / 20"
  using round_half_even_bounds[of "x * 10"] by (simp add: py_round_def field_simps)

lemma py_round_2_bounds: "x - 1 / 200 \<le> py_round 2 x \<and> py_round 2 x \<le> x + 1 / 200"
  using round_half_even_bounds[of "x * 100"] by (simp add: py_round_def field_simps)

lemma clamp_float:
  assumes "a \<le> b"
  shows "\<exists>v. py_float env (py_max a (py_min b (JFloat r))) = Inr v \<and> of_int a \<le> v \<and> v \<le> of_int b"
  using assms by (auto simp: py_max_def py_min_def num_val_def py_float_def)

lemma py_float_JFloat: "py_float env (JFloat q) = Inr q"
  by (simp add: py_float_def)

lemma clamp_int:
  "py_int env (py_max a (py_min b (JInt c))) = Inr (if a < (if c < b then c else b) then (if c < b then c else b) else a)"
  by (auto simp: py_max_def py_min_def num_val_def py_int_def)

lemma optional_float_pos:
  assumes "0 < r"
  shows "optional_float env (JFloat r) (JFloat r) = Inr (Some r)"
  using assms by (simp add: optional_float_def py_truthy_def py_float_def)

lemma optional_float_max0:
  assumes "0 < r"
  shows "optional_float env (py_max 0 (JFloat r)) (py_max 0 (JFloat r)) = Inr (Some r)"
  using assms by (simp add: py_max_def num_val_def optional_float_pos)

text \<open>
  Claim C9. Whatever the random draws of \<open>_generate_simulated_data\<close> (each within
  the bounds of its \<open>uniform\<close> or \<open>randint\<close> call), the record it returns builds a
  \<open>TelemetryData\<close>: the construction of \<open>_process_sensor_data\<close> does not fail, and
  the fields are in the ranges of the schema, temperature in [-50, 100], humidity in
  [0, 100], soil moisture in [0, 1], CO2 in [0, 5000], light at least 0, pH in
  [0, 14], nutrients at least 0.
\<close>

theorem simulated_data_valid:
  assumes "draws_in_range d"
  shows "\<exists>t. telemetry_of_data env (generate_simulated_data d) = Inr t \<and>
           - 50 \<le> temperature t \<and> temperature t \<le> 100 \<and>
           0 \<le> humidity t \<and> humidity t \<le> 100 \<and>
           0 \<le> soil_moisture t \<and> soil_moisture t \<le> 1 \<and>
           0 \<le> co2_level t \<and> co2_level t \<le> 5000 \<and>
           (\<exists>l. light_level t = Some l \<and> 0 \<le> l) \<and>
           (\<exists>p. ph_level t = Some p \<and> 0 \<le> p \<and> p \<le> 14) \<and>
           (\<exists>n. nutrient_level t = Some n \<and> 0 \<le> n)"
proof -
  define te where "te = py_round 1 (23 + draw_temp d)"
  define rh where "rh = py_round 1 (60 + draw_humidity d)"
  define rs where "rs = py_round 2 (6 / 10 + draw_soil d)"
  define rl where "rl = py_round 1 (450 + draw_light d)"
  define rp where "rp = py_round 1 (65 / 10 + draw_ph d)"
  define rn where "rn = py_round 2 (draw_nutrients d)"
  define co where "co = 800 + draw_co2 d"
  have te: "- 50 \<le> te" "te \<le> 100"
    using assms py_round_1_bounds[of "23 + draw_temp d"] by (simp_all add: te_def draws_in_range_def)
  have rl: "0 < rl"
    using assms py_round_1_bounds[of "450 + draw_light d"] by (simp add: rl_def draws_in_range_def)
  have rp: "0 < rp" "rp \<le> 14"
    using assms py_round_1_bounds[of "65 / 10 + draw_ph d"] by (simp_all add: rp_def draws_in_range_def)
  have rn: "0 < rn"
    using assms py_round_2_bounds[of "draw_nutrients d"] by (simp add: rn_def draws_in_range_def)
  obtain hu where hu: "py_float env (py_max 0 (py_min 100 (JFloat rh))) = Inr hu" "0 \<le> hu" "hu \<le> 100"
    using clamp_float[of 0 100 env rh] by auto
  obtain so where so: "py_float env (py_max 0 (py_min 1 (JFloat rs))) = Inr so" "0 \<le> so" "so \<le> 1"
    using clamp_float[of 0 1 env rs] by auto
  obtain c where c: "py_int env (py_max 300 (py_min 1500 (JInt co))) = Inr c" "0 \<le> c" "c \<le> 5000"
    using clamp_int[of env 300 1500 co] by (cases "co < 1500") auto
  have gen: "generate_simulated_data d =
    JObj [(''temp'', JFloat te),
          (''humidity'', py_max 0 (py_min 100 (JFloat rh))),
          (''soil'', py_max 0 (py_min 1 (JFloat rs))),
          (''co2'', py_max 300 (py_min 1500 (JInt co))),
          (''light'', py_max 0 (JFloat rl)),
          (''ph'', JFloat rp),
          (''nutrients'', JFloat rn)]"
    by (simp add: generate_simulated_data_def Let_def te_def rh_def rs_def rl_def rp_def rn_def co_def)
  have "telemetry_of_data env (generate_simulated_data d) =
        mk_TelemetryData te hu so c (Some rl) (Some rp) (Some rn)"
    unfolding gen
    by (simp add: telemetry_of_data_def py_get_default_def py_get_def hu so c
        optional_float_max0[OF rl] optional_float_pos[OF rp(1)] optional_float_pos[OF rn]
        py_float_JFloat)
  moreover have "telemetry_valid \<lparr>temperature = te, humidity = hu, soil_moisture = so, co2_level = c,
      light_level = Some rl, ph_level = Some rp, nutrient_level = Some rn\<rparr>"
    using te hu so c rl rp rn by (simp add: telemetry_valid_def)
  ultimately show ?thesis
    using te hu so c rl rp rn by (simp add: mk_TelemetryData_def Let_def)
qed

theorem simulated_data_valid_witness:
  "draws_in_range \<lparr>draw_temp = 1, draw_humidity = - 5, draw_soil = 1 / 10, draw_co2 = 50,
      draw_light = 20, draw_ph = 1 / 2, draw_nutrients = 1 / 2\<rparr> \<and>
   (\<exists>t. telemetry_of_data \<lparr>float_of_str = (\<lambda>s. Inl ValueError), int_of_str = (\<lambda>s. Inl ValueError)\<rparr>
          (generate_simulated_data \<lparr>draw_temp = 1, draw_humidity = - 5, draw_soil = 1 / 10,
             draw_co2 = 50, draw_light = 20, draw_ph = 1 / 2, draw_nutrients = 1 / 2\<rparr>) = Inr t \<and>
        - 50 \<le> temperature t \<and> temperature t \<le> 100 \<and>
        0 \<le> humidity t \<and> humidity t \<le> 100 \<and>
        0 \<le> soil_moisture t \<and> soil_moisture t \<le> 1 \<and>
        0 \<le> co2_level t \<and> co2_level t \<le> 5000)"
proof -
  have h: "draws_in_range \<lparr>draw_temp = 1, draw_humidity = - 5, draw_soil = 1 / 10, draw_co2 = 50,
      draw_light = 20, draw_ph = 1 / 2, draw_nutrients = 1 / 2\<rparr>"
    by (simp add: draws_in_range_def)
  from simulated_data_valid[OF h,
      of "\<lparr>float_of_str = (\<lambda>s. Inl ValueError), int_of_str = (\<lambda>s. Inl ValueError)\<rparr>"] h
  show ?thesis by blast
qed

section \<open>Recommendations\<close>

text \<open>
  Claim C10. Whatever the reading, the health score, the stress indicators and the
  answer of the OpenAI client (when there is one), \<open>_generate_recommendations\<close>
  returns at most 5 recommendations.
\<close>

theorem generate_recommendations_at_most_5:
  "length (generate_recommendations client t health_score stress_indicators) \<le> 5"
  unfolding generate_recommendations_def Let_def length_take by (rule min.cobounded2)

theorem generate_recommendations_at_most_5_witness:
  "length (generate_recommendations
      (Some (\<lambda>t h. Inr [''a'', ''b'', ''c'', ''d'', ''e'', ''f''])) (steady 20) 80 []) \<le> 5 \<and>
   length (generate_recommendations
      (Some (\<lambda>t h. Inr [''a'', ''b'', ''c'', ''d'', ''e'', ''f''])) (steady 20) 80 []) = 5"
  using generate_recommendations_at_most_5[of
      "Some (\<lambda>t h. Inr [''a'', ''b'', ''c'', ''d'', ''e'', ''f''])" "steady 20" 80 "[]"]
  by (simp add: generate_recommendations_def get_ai_recommendations_def steady_def light_below_def)

section \<open>Forecast\<close>

text \<open>
  Claim C3. For a history of fewer than 5 readings and any horizon,
  \<open>predict_future_conditions\<close> returns a response, it does not raise: the prediction
  type is \<open>insufficient_data\<close>, the confidence is 0.0, no value is predicted, and
  there is one recommendation, which explains, and one risk factor.
\<close>

theorem predict_insufficient_data:
  assumes "length historical_data < 5"
  shows "predict_future_conditions env historical_data hours_ahead =
         Inr \<lparr>prediction_type = ''insufficient_data'', forecast_hours = hours_ahead,
              predicted_values = [], confidence = Finite 0,
              recommendations = [''Collect more sensor data for accurate predictions''],
              risk_factors = [''Insufficient historical data'']\<rparr>"
  using assms
  by (simp add: predict_future_conditions_def mk_PredictionResponse_def float_le_def)

theorem predict_insufficient_data_witness:
  "length [steady 20, steady 21] < 5 \<and>
   predict_future_conditions np_nearest [steady 20, steady 21] 24 =
     Inr \<lparr>prediction_type = ''insufficient_data'', forecast_hours = 24,
          predicted_values = [], confidence = Finite 0,
          recommendations = [''Collect more sensor data for accurate predictions''],
          risk_factors = [''Insufficient historical data'']\<rparr>"
proof -
  have h: "length [steady 20, steady 21] < 5" by simp
  from predict_insufficient_data[OF h, of np_nearest 24] h show ?thesis by simp
qed

text \<open>The float constants of the confidence.\<close>

lemma confidence_base: "float_lit (7 / 10) = Finite (3152519739159347 / 4503599627370496)"
  by code_simp

lemma confidence_raised:
  "float_add (float_lit (7 / 10)) (float_lit (2 / 10)) =
     Finite (2026619832316723 / 2251799813685248)"
  by code_simp

lemma nine_tenths: "float_lit (9 / 10) = Finite (8106479329266893 / 9007199254740992)"
  by code_simp

lemma confidence_base_valid:
  "float_le (Finite 0) (float_lit (7 / 10)) \<and> float_le (float_lit (7 / 10)) (Finite 1) \<and>
   float_le (float_lit (7 / 10)) (float_lit (9 / 10))"
  by code_simp

lemma confidence_raised_valid:
  "float_le (Finite 0) (float_add (float_lit (7 / 10)) (float_lit (2 / 10))) \<and>
   float_le (float_add (float_lit (7 / 10)) (float_lit (2 / 10))) (Finite 1) \<and>
   float_le (float_add (float_lit (7 / 10)) (float_lit (2 / 10))) (float_lit (9 / 10))"
  by code_simp


lemma mk_PredictionResponse_valid:
  assumes "float_le (Finite 0) c \<and> float_le c (Finite 1)"
  shows "\<exists>r. mk_PredictionResponse ty h pv c recs risks = Inr r"
  using assms by (simp add: mk_PredictionResponse_def)





text \<open>The forecast is returned whenever numpy's fit returns a slope for every column
  and the horizon converts to a float.\<close>

lemma predict_columns_returns:
  assumes "\<And>vals. \<exists>trend. np_polyfit_slope env vals = Inr trend"
    and "float_of_int h = Inr y"
  shows "\<exists>res. predict_columns env h cols ps ts = Inr res"
proof (induction cols arbitrary: ps ts)
  case Nil
  then show ?case by simp
next
  case (Cons col cols)
  obtain c vals where col: "col = (c, vals)" by (cases col)
  obtain trend where trend: "np_polyfit_slope env vals = Inr trend"
    using assms(1) by blast
  have mul: "float_mul_int trend h = Inr (float_mul trend y)"
    using assms(2) by (simp add: float_mul_int_def)
  show ?case
    using Cons.IH by (simp add: col trend mul Let_def)
qed

lemma predict_future_conditions_returns:
  assumes "\<And>vals. \<exists>trend. np_polyfit_slope env vals = Inr trend"
    and "float_of_int hours_ahead = Inr y"
  shows "\<exists>r. predict_future_conditions env historical_data hours_ahead = Inr r"
proof (cases "length historical_data < 5")
  case True
  then show ?thesis
    by (simp add: predict_future_conditions_def mk_PredictionResponse_def float_le_def)
next
  case False
  obtain ps ts where
    run: "predict_columns env hours_ahead (data_frame historical_data) [] [] = Inr (ps, ts)"
    using predict_columns_returns[OF assms] by (metis surj_pair)
  have raised: "\<exists>r. mk_PredictionResponse ty h pv
                   (float_add (float_lit (7 / 10)) (float_lit (2 / 10))) recs risks = Inr r"
    for ty h pv recs risks
    using confidence_raised_valid by (intro mk_PredictionResponse_valid) (simp only:)
  have base: "\<exists>r. mk_PredictionResponse ty h pv (float_lit (7 / 10)) recs risks = Inr r"
    for ty h pv recs risks
    using confidence_base_valid by (intro mk_PredictionResponse_valid) (simp only:)
  show ?thesis
    unfolding predict_future_conditions_def
    using False raised base by (simp add: run Let_def split: prod.splits)
qed




section \<open>Alert check\<close>

lemma cold_reading_alerts:
  "threshold_alerts
     \<lparr>temperature = 12, humidity = 60, soil_moisture = 6 / 10, co2_level = 800,
      light_level = li, ph_level = ph, nutrient_level = nu\<rparr> =
   [\<lparr>alert_type = ''critical'', title = ''Critical Low Temperature'',
     message = ''Temperature is 12.0'' @ [degree_sign] @ ''C - Risk of plant damage'',
     category = ''temperature''\<rparr>]"
  by (simp add: threshold_alerts_def str_float_def str_nat.simps digit_char_def)

lemma cold_message_has_12:
  "sublist ''12'' (''Temperature is 12.0'' @ [degree_sign] @ ''C - Risk of plant damage'')"
  unfolding sublist_def
  by (rule exI[of _ "''Temperature is ''"],
      rule exI[of _ "''.0'' @ [degree_sign] @ ''C - Risk of plant damage''"]) simp

lemma check_alerts_one_batch:
  "length (check_alerts held now) \<le> 1 \<and>
   concat (map event_data (check_alerts held now)) =
     (case held of None \<Rightarrow> [] | Some latest \<Rightarrow> threshold_alerts latest)"
  by (simp add: check_alerts_def Let_def split: option.splits)

text \<open>
  Claim C4. For the reading with temperature 12, humidity 60, soil moisture 0.6 and
  CO2 800 (whatever its optional fields) the threshold rules of \<open>_check_alerts\<close> give
  exactly one alert, of type \<open>critical\<close> and category \<open>temperature\<close>, whose message
  contains \<open>12\<close>, and the run broadcasts it in one \<open>new_alerts\<close> event. For every
  reading, a run makes at most one broadcast, and the alerts of its broadcasts are
  all the alerts of the evaluation: they go out together, not one event per alert.
\<close>

theorem check_alerts_cold_reading:
  "threshold_alerts
     \<lparr>temperature = 12, humidity = 60, soil_moisture = 6 / 10, co2_level = 800,
      light_level = li, ph_level = ph, nutrient_level = nu\<rparr> =
     [\<lparr>alert_type = ''critical'', title = ''Critical Low Temperature'',
       message = ''Temperature is 12.0'' @ [degree_sign] @ ''C - Risk of plant damage'',
       category = ''temperature''\<rparr>] \<and>
   sublist ''12'' (''Temperature is 12.0'' @ [degree_sign] @ ''C - Risk of plant damage'') \<and>
   check_alerts
     (Some \<lparr>temperature = 12, humidity = 60, soil_moisture = 6 / 10, co2_level = 800,
            light_level = li, ph_level = ph, nutrient_level = nu\<rparr>) now =
     [\<lparr>event_type = ''new_alerts'',
       event_data =
         [\<lparr>alert_type = ''critical'', title = ''Critical Low Temperature'',
           message = ''Temperature is 12.0'' @ [degree_sign] @ ''C - Risk of plant damage'',
           category = ''temperature''\<rparr>],
       event_timestamp = now\<rparr>] \<and>
   length (check_alerts held now') \<le> 1 \<and>
   concat (map event_data (check_alerts held now')) =
     (case held of None \<Rightarrow> [] | Some latest \<Rightarrow> threshold_alerts latest)"
proof -
  have c: "check_alerts
     (Some \<lparr>temperature = 12, humidity = 60, soil_moisture = 6 / 10, co2_level = 800,
            light_level = li, ph_level = ph, nutrient_level = nu\<rparr>) now =
     [\<lparr>event_type = ''new_alerts'',
       event_data =
         [\<lparr>alert_type = ''critical'', title = ''Critical Low Temperature'',
           message = ''Temperature is 12.0'' @ [degree_sign] @ ''C - Risk of plant damage'',
           category = ''temperature''\<rparr>],
       event_timestamp = now\<rparr>]"
    unfolding check_alerts_def option.case Let_def cold_reading_alerts by simp
  show ?thesis
    by (intro conjI)
       (rule cold_reading_alerts cold_message_has_12 c
          check_alerts_one_batch[THEN conjunct1] check_alerts_one_batch[THEN conjunct2])+
qed

theorem check_alerts_cold_reading_witness:
  "length (check_alerts
     (Some \<lparr>temperature = 36, humidity = 10, soil_moisture = 1 / 8, co2_level = 200,
            light_level = None, ph_level = None, nutrient_level = None\<rparr>) 7) \<le> 1 \<and>
   map (\<lambda>e. length (event_data e)) (check_alerts
     (Some \<lparr>temperature = 36, humidity = 10, soil_moisture = 1 / 8, co2_level = 200,
            light_level = None, ph_level = None, nutrient_level = None\<rparr>) 7) = [4]"
proof -
  have "length (threshold_alerts
     \<lparr>temperature = 36, humidity = 10, soil_moisture = 1 / 8, co2_level = 200,
      light_level = None, ph_level = None, nutrient_level = None\<rparr>) = 4"
    by (simp add: threshold_alerts_def)
  then have "map (\<lambda>e. length (event_data e)) (check_alerts
     (Some \<lparr>temperature = 36, humidity = 10, soil_moisture = 1 / 8, co2_level = 200,
            light_level = None, ph_level = None, nutrient_level = None\<rparr>) 7) = [4]"
    by (auto simp: check_alerts_def Let_def)
  with check_alerts_cold_reading[of None None None 7
      "Some \<lparr>temperature = 36, humidity = 10, soil_moisture = 1 / 8, co2_level = 200,
            light_level = None, ph_level = None, nutrient_level = None\<rparr>" 7]
  show ?thesis by simp
qed

end
